theory Spec2Isabelle
  imports Complex_Main
begin

section \<open>Vectors and matrices of the host's math library\<close>

text \<open>
  The operators compute with the host's \<^verbatim>\<open>mathutils\<close> vectors and 4x4 matrices of floats.
  Floats are idealised as real numbers: rounding is not modelled, and every statement
  below about a computed number is a statement about the exact value.
  A matrix is the tuple of its four rows, as \<^verbatim>\<open>mx[row][col]\<close> reads it.
\<close>

type_synonym vec3 = "real \<times> real \<times> real"
type_synonym vec4 = "real \<times> real \<times> real \<times> real"
type_synonym mat3 = "vec3 \<times> vec3 \<times> vec3"
type_synonym mat4 = "vec4 \<times> vec4 \<times> vec4 \<times> vec4"

text \<open>A quaternion \<^verbatim>\<open>(w, x, y, z)\<close>.\<close>

type_synonym quat = "real \<times> real \<times> real \<times> real"

datatype axis = X | Y | Z

fun dot4 :: "vec4 \<Rightarrow> vec4 \<Rightarrow> real" where
  "dot4 (a0, a1, a2, a3) (b0, b1, b2, b3) = a0 * b0 + a1 * b1 + a2 * b2 + a3 * b3"

fun transpose4 :: "mat4 \<Rightarrow> mat4" where
  "transpose4 ((a00, a01, a02, a03), (a10, a11, a12, a13),
               (a20, a21, a22, a23), (a30, a31, a32, a33)) =
     ((a00, a10, a20, a30), (a01, a11, a21, a31),
      (a02, a12, a22, a32), (a03, a13, a23, a33))"

fun row_times :: "vec4 \<Rightarrow> mat4 \<Rightarrow> vec4" where
  "row_times r (c0, c1, c2, c3) = (dot4 r c0, dot4 r c1, dot4 r c2, dot4 r c3)"

text \<open>The matrix product \<^verbatim>\<open>A @ B\<close>.\<close>

fun matmul :: "mat4 \<Rightarrow> mat4 \<Rightarrow> mat4" where
  "matmul (r0, r1, r2, r3) B =
     (row_times r0 (transpose4 B), row_times r1 (transpose4 B),
      row_times r2 (transpose4 B), row_times r3 (transpose4 B))"

text \<open>
  \<^verbatim>\<open>mx @ v\<close> for a 4x4 matrix and a 3D vector: the vector is extended by 1 and the
  first three components of the product are returned.
\<close>

fun mat_vec3 :: "mat4 \<Rightarrow> vec3 \<Rightarrow> vec3" where
  "mat_vec3 (r0, r1, r2, r3) (x, y, z) =
     (dot4 r0 (x, y, z, 1), dot4 r1 (x, y, z, 1), dot4 r2 (x, y, z, 1))"

text \<open>\<^verbatim>\<open>Matrix()\<close>: the identity.\<close>

definition Matrix_Identity :: mat4 where
  "Matrix_Identity = ((1, 0, 0, 0), (0, 1, 0, 0), (0, 0, 1, 0), (0, 0, 0, 1))"

definition radians :: "real \<Rightarrow> real" where
  "radians d = d * pi / 180"

text \<open>\<^verbatim>\<open>Matrix.Rotation(angle, 4, axis)\<close>.\<close>

fun Matrix_Rotation :: "real \<Rightarrow> axis \<Rightarrow> mat4" where
  "Matrix_Rotation a X =
     ((1, 0, 0, 0), (0, cos a, - sin a, 0), (0, sin a, cos a, 0), (0, 0, 0, 1))"
| "Matrix_Rotation a Y =
     ((cos a, 0, sin a, 0), (0, 1, 0, 0), (- sin a, 0, cos a, 0), (0, 0, 0, 1))"
| "Matrix_Rotation a Z =
     ((cos a, - sin a, 0, 0), (sin a, cos a, 0, 0), (0, 0, 1, 0), (0, 0, 0, 1))"

text \<open>\<^verbatim>\<open>Matrix.Scale(factor, 4)\<close>: a uniform scale of the three space axes.\<close>

definition Matrix_Scale :: "real \<Rightarrow> mat4" where
  "Matrix_Scale f = ((f, 0, 0, 0), (0, f, 0, 0), (0, 0, f, 0), (0, 0, 0, 1))"

text \<open>\<^verbatim>\<open>mx.to_translation()\<close>: the fourth column.\<close>

fun to_translation :: "mat4 \<Rightarrow> vec3" where
  "to_translation ((a00, a01, a02, a03), (a10, a11, a12, a13),
                   (a20, a21, a22, a23), r3) = (a03, a13, a23)"

text \<open>The upper left 3x3 block, which holds rotation and scale.\<close>

fun to_3x3 :: "mat4 \<Rightarrow> mat3" where
  "to_3x3 ((a00, a01, a02, a03), (a10, a11, a12, a13),
           (a20, a21, a22, a23), r3) =
     ((a00, a01, a02), (a10, a11, a12), (a20, a21, a22))"

fun to_4x4 :: "mat3 \<Rightarrow> mat4" where
  "to_4x4 ((a00, a01, a02), (a10, a11, a12), (a20, a21, a22)) =
     ((a00, a01, a02, 0), (a10, a11, a12, 0), (a20, a21, a22, 0), (0, 0, 0, 1))"

text \<open>\<^verbatim>\<open>quat.to_matrix()\<close>: the rotation matrix of a quaternion.\<close>

fun quat_to_matrix :: "quat \<Rightarrow> mat3" where
  "quat_to_matrix (w, x, y, z) =
     ((1 - 2 * (y * y + z * z), 2 * (x * y - w * z), 2 * (x * z + w * y)),
      (2 * (x * y + w * z), 1 - 2 * (x * x + z * z), 2 * (y * z - w * x)),
      (2 * (x * z - w * y), 2 * (y * z + w * x), 1 - 2 * (x * x + y * y)))"

text \<open>\<^verbatim>\<open>vec / d\<close>, componentwise.\<close>

fun vec_div :: "vec3 \<Rightarrow> real \<Rightarrow> vec3" where
  "vec_div (x, y, z) d = (x / d, y / d, z / d)"

subsection \<open>Helpers of \<^verbatim>\<open>utils.math\<close>\<close>

text \<open>
  Modelled from the spec: \<^verbatim>\<open>get_loc_matrix\<close>, \<^verbatim>\<open>get_rot_matrix\<close> and
  \<^verbatim>\<open>get_sca_matrix\<close> of \<^verbatim>\<open>utils/math.py\<close>, the "construction of pure
  translation/rotation/scale matrices".
\<close>

fun get_loc_matrix :: "vec3 \<Rightarrow> mat4" where
  "get_loc_matrix (x, y, z) = ((1, 0, 0, x), (0, 1, 0, y), (0, 0, 1, z), (0, 0, 0, 1))"

definition get_rot_matrix :: "quat \<Rightarrow> mat4" where
  "get_rot_matrix rot = to_4x4 (quat_to_matrix rot)"

fun get_sca_matrix :: "vec3 \<Rightarrow> mat4" where
  "get_sca_matrix (x, y, z) = ((x, 0, 0, 0), (0, y, 0, 0), (0, 0, z, 0), (0, 0, 0, 1))"

text \<open>
  Modelled from the spec: \<^verbatim>\<open>flatten_matrix\<close> of \<^verbatim>\<open>utils/math.py\<close>, which turns the
  matrix into the 16 floats of the object's \<^verbatim>\<open>pre_unity_export_mx\<close> property, so that
  the transform is "saved verbatim for exact restoration". The 16 floats are kept in
  storage order, column by column, in four groups of four; \<open>matrix_of_flat\<close> is the
  host reading them back as a matrix when the property is assigned to
  \<^verbatim>\<open>matrix_world\<close>.
\<close>

type_synonym float16 = "vec4 \<times> vec4 \<times> vec4 \<times> vec4"

definition flatten_matrix :: "mat4 \<Rightarrow> float16" where
  "flatten_matrix mx = transpose4 mx"

definition matrix_of_flat :: "float16 \<Rightarrow> mat4" where
  "matrix_of_flat fl = transpose4 fl"

section \<open>Scene objects, modifiers and mesh data blocks\<close>

text \<open>
  A modifier is a tagged union on its \<^verbatim>\<open>type\<close>; only the parameters the operators
  read or write are kept. An axis flag set is the three booleans for X, Y and Z.
\<close>

type_synonym flags3 = "bool \<times> bool \<times> bool"

datatype mod_params =
    MIRROR (use_axis: flags3) (use_bisect_axis: flags3) (use_bisect_flip_axis: flags3)
  | BEVEL (width: real)
  | TRIANGULATE (keep_custom_normals: bool)
  | OTHER_MODIFIER

record modifier =
  mod_name :: string
  show_viewport :: bool
  show_expanded :: bool
  params :: mod_params

datatype object_type = MESH | EMPTY | OTHER

text \<open>
  An object. \<open>data\<close> is the reference to its mesh data block (read only when the
  type is \<open>MESH\<close>); the three fields after it are the export annotation
  \<^verbatim>\<open>obj.M3\<close>. \<open>pose_bones\<close> maps the name of each bone of an armature to
  \<^verbatim>\<open>obj.pose.bones[name].matrix\<close>. Objects are identified by \<open>name\<close>, which the
  host keeps unique.
\<close>

record object =
  name :: string
  type :: object_type
  matrix_world :: mat4
  location :: vec3
  modifiers :: "modifier list"
  empty_display_size :: real
  data :: nat
  unity_exported :: bool
  pre_unity_export_mx :: float16
  pre_unity_export_mesh :: "nat option"
  parent :: "string option"
  parent_type :: string
  parent_bone :: string
  pose_bones :: "string \<rightharpoonup> mat4"
  visible :: bool
  select :: bool

text \<open>
  The hierarchy: an object with its children (\<^verbatim>\<open>obj.children\<close>). The objects of a
  scene are the forest of the trees below its parentless objects.
\<close>

datatype obj_tree = Node (root: object) (children: "obj_tree list")

fun objs :: "obj_tree \<Rightarrow> object list" where
  "objs (Node obj cs) = obj # concat (map objs cs)"

text \<open>
  The mesh data blocks \<^verbatim>\<open>bpy.data.meshes\<close>: the vertex coordinates behind each
  reference, the references that are in use, and the next unused one.
\<close>

record bdata =
  vertices :: "nat \<Rightarrow> vec3 list"
  meshes_in_use :: "nat list"
  next_mesh :: nat

text \<open>\<^verbatim>\<open>mesh.copy()\<close>: a new data block with the same vertices.\<close>

definition mesh_copy :: "nat \<Rightarrow> bdata \<Rightarrow> nat \<times> bdata" where
  "mesh_copy m bd =
     (next_mesh bd,
      bd\<lparr>vertices := (vertices bd)(next_mesh bd := vertices bd m),
         meshes_in_use := meshes_in_use bd @ [next_mesh bd],
         next_mesh := Suc (next_mesh bd)\<rparr>)"

text \<open>\<^verbatim>\<open>mesh.transform(mx)\<close>: every vertex is multiplied by the matrix.\<close>

definition mesh_transform :: "nat \<Rightarrow> mat4 \<Rightarrow> bdata \<Rightarrow> bdata" where
  "mesh_transform m mx bd =
     bd\<lparr>vertices := (vertices bd)(m := map (mat_vec3 mx) (vertices bd m))\<rparr>"

text \<open>\<^verbatim>\<open>bpy.data.batch_remove(meshes)\<close>.\<close>

definition batch_remove :: "nat list \<Rightarrow> bdata \<Rightarrow> bdata" where
  "batch_remove ms bd = bd\<lparr>meshes_in_use := filter (\<lambda>m. m \<notin> set ms) (meshes_in_use bd)\<rparr>"

datatype error = KeyError | ValueError | AttributeError

section \<open>Export preparation and restoration (\<^verbatim>\<open>operators/unity.py\<close>)\<close>

text \<open>
  \<^verbatim>\<open>mod.use_axis[1:3] = mod.use_axis[2], mod.use_axis[1]\<close>: the Y and Z entries of a
  flag set change places.
\<close>

fun swap_yz :: "flags3 \<Rightarrow> flags3" where
  "swap_yz (x, y, z) = (x, z, y)"

fun is_mirror :: "modifier \<Rightarrow> bool" where
  "is_mirror m = (case params m of MIRROR u b f \<Rightarrow> True | _ \<Rightarrow> False)"

fun is_bevel :: "modifier \<Rightarrow> bool" where
  "is_bevel m = (case params m of BEVEL w \<Rightarrow> True | _ \<Rightarrow> False)"

fun is_triangulate :: "modifier \<Rightarrow> bool" where
  "is_triangulate m = (case params m of TRIANGULATE k \<Rightarrow> True | _ \<Rightarrow> False)"

text \<open>The body of the loop over \<^verbatim>\<open>mirrors\<close>, the same in both operators.\<close>

fun swap_mirror :: "modifier \<Rightarrow> modifier" where
  "swap_mirror m =
     (case params m of
        MIRROR u b f \<Rightarrow> m\<lparr>params := MIRROR (swap_yz u) (swap_yz b) (swap_yz f)\<rparr>
      | _ \<Rightarrow> m)"

text \<open>
  \<^verbatim>\<open>mirrors = [mod for mod in obj.modifiers if mod.type == 'MIRROR' and mod.show_viewport]\<close>
  followed by the loop over them: the selected modifiers are changed in place, the
  others and the order are kept.
\<close>

definition adjust_mirrors :: "modifier list \<Rightarrow> modifier list" where
  "adjust_mirrors mods =
     map (\<lambda>m. if is_mirror m \<and> show_viewport m then swap_mirror m else m) mods"

fun scale_bevel :: "(real \<Rightarrow> real) \<Rightarrow> modifier \<Rightarrow> modifier" where
  "scale_bevel f m = (case params m of BEVEL w \<Rightarrow> m\<lparr>params := BEVEL (f w)\<rparr> | _ \<Rightarrow> m)"

text \<open>
  \<^verbatim>\<open>bevels = [mod for mod in obj.modifiers if mod.type == 'BEVEL' and mod.show_viewport]\<close>
  followed by the loop over them, with \<^verbatim>\<open>mod.width *= 100\<close> or
  \<^verbatim>\<open>mod.width /= 100\<close> as \<open>f\<close>.
\<close>

definition adjust_bevels :: "(real \<Rightarrow> real) \<Rightarrow> modifier list \<Rightarrow> modifier list" where
  "adjust_bevels f mods =
     map (\<lambda>m. if is_bevel m \<and> show_viewport m then scale_bevel f m else m) mods"

text \<open>
  \<^verbatim>\<open>obj.modifiers.new(name="Triangulate", type="TRIANGULATE")\<close> with the two
  attributes set after it.
\<close>

definition new_triangulate :: modifier where
  "new_triangulate =
     \<lparr>mod_name = ''Triangulate'', show_viewport = True, show_expanded = False,
      params = TRIANGULATE True\<rparr>"

text \<open>
  One visit of \<^verbatim>\<open>prepare_for_export\<close> to an object of \<^verbatim>\<open>sel\<close>, from setting the
  flag to the mesh compensation; \<open>mx\<close> is \<^verbatim>\<open>matrices[obj]\<close>. The host's
  \<^verbatim>\<open>Matrix.decompose\<close> is the parameter \<open>decompose\<close>.
\<close>

definition prepare_object ::
  "(mat4 \<Rightarrow> vec3 \<times> quat \<times> vec3) \<Rightarrow> mat4 \<Rightarrow> bool \<Rightarrow> object \<Rightarrow> bdata \<Rightarrow> object \<times> bdata" where
  "prepare_object decompose mx triangulate obj bd =
     (let obj1 = obj\<lparr>unity_exported := True\<rparr>;
          obj2 = obj1\<lparr>pre_unity_export_mx := flatten_matrix mx\<rparr>;
          (loc, rot, sca) = decompose mx;
          rotation = Matrix_Rotation (radians 90) X;
          scale = get_sca_matrix (vec_div sca 100);
          obj3 = obj2\<lparr>matrix_world :=
                   matmul (matmul (matmul (get_loc_matrix loc) (get_rot_matrix rot)) rotation) scale\<rparr>;
          obj4 = obj3\<lparr>modifiers := adjust_mirrors (modifiers obj3)\<rparr>;
          obj5 = obj4\<lparr>modifiers := adjust_bevels (\<lambda>w. w * 100) (modifiers obj4)\<rparr>;
          obj6 = (if triangulate \<and> type obj5 = MESH
                  then obj5\<lparr>modifiers := modifiers obj5 @ [new_triangulate]\<rparr> else obj5)
      in if type obj6 = EMPTY
         then (obj6\<lparr>empty_display_size := empty_display_size obj6 * 100\<rparr>, bd)
         else if type obj6 = MESH
         then (let obj7 = obj6\<lparr>pre_unity_export_mesh := Some (data obj6)\<rparr>;
                   (new, bd1) = mesh_copy (data obj7) bd;
                   obj8 = obj7\<lparr>data := new\<rparr>;
                   rotation = Matrix_Rotation (radians (- 90)) X;
                   scale = Matrix_Scale 100
               in (obj8, mesh_transform (data obj8) (matmul rotation scale) bd1))
         else (obj6, bd))"

text \<open>
  \<^verbatim>\<open>prepare_for_export(obj, sel, matrices, triangulate)\<close>. \<open>sel\<close> holds the names
  of the selected objects and \<open>matrices\<close> is the dictionary of their world matrices.
  A missing key raises when the flag of the object is set already (the flag is set in
  the line before the lookup), and the error carries the objects and the data blocks as
  they are at that moment. The arguments \<^verbatim>\<open>depth\<close> and \<^verbatim>\<open>child\<close> only
  feed the printed messages and are left out. \<open>prepare_children\<close> is the loop over
  \<^verbatim>\<open>obj.children\<close>.
\<close>

fun prepare_for_export ::
    "(mat4 \<Rightarrow> vec3 \<times> quat \<times> vec3) \<Rightarrow> obj_tree \<Rightarrow> string list \<Rightarrow> (string \<rightharpoonup> mat4) \<Rightarrow> bool
     \<Rightarrow> bdata \<Rightarrow> (error \<times> obj_tree \<times> bdata) + (obj_tree \<times> bdata)"
  and prepare_children ::
    "(mat4 \<Rightarrow> vec3 \<times> quat \<times> vec3) \<Rightarrow> obj_tree list \<Rightarrow> string list \<Rightarrow> (string \<rightharpoonup> mat4) \<Rightarrow> bool
     \<Rightarrow> bdata \<Rightarrow> (error \<times> obj_tree list \<times> bdata) + (obj_tree list \<times> bdata)" where
  "prepare_for_export decompose (Node obj cs) sel matrices triangulate bd =
     (if name obj \<in> set sel
      then (case matrices (name obj) of
              None \<Rightarrow> Inl (KeyError, Node (obj\<lparr>unity_exported := True\<rparr>) cs, bd)
            | Some mx \<Rightarrow>
                (case prepare_object decompose mx triangulate obj bd of
                   (obj', bd1) \<Rightarrow>
                     (case prepare_children decompose cs sel matrices triangulate bd1 of
                        Inl (e, cs', bd2) \<Rightarrow> Inl (e, Node obj' cs', bd2)
                      | Inr (cs', bd2) \<Rightarrow> Inr (Node obj' cs', bd2))))
      else Inr (Node obj cs, bd))"
| "prepare_children decompose [] sel matrices triangulate bd = Inr ([], bd)"
| "prepare_children decompose (c # cs) sel matrices triangulate bd =
     (if name (root c) \<in> set sel
      then (case prepare_for_export decompose c sel matrices triangulate bd of
              Inl (e, c', bd1) \<Rightarrow> Inl (e, c' # cs, bd1)
            | Inr (c', bd1) \<Rightarrow>
                (case prepare_children decompose cs sel matrices triangulate bd1 of
                   Inl (e, cs', bd2) \<Rightarrow> Inl (e, c' # cs', bd2)
                 | Inr (cs', bd2) \<Rightarrow> Inr (c' # cs', bd2)))
      else (case prepare_children decompose cs sel matrices triangulate bd of
              Inl (e, cs', bd1) \<Rightarrow> Inl (e, c # cs', bd1)
            | Inr (cs', bd1) \<Rightarrow> Inr (c # cs', bd1)))"

text \<open>
  One visit of \<^verbatim>\<open>restore_exported\<close> to an object of \<^verbatim>\<open>exported\<close>; \<open>meshes\<close> is the
  list that collects the data blocks to remove.
\<close>

definition restore_object :: "bool \<Rightarrow> object \<Rightarrow> nat list \<Rightarrow> object \<times> nat list" where
  "restore_object detriangulate obj meshes =
     (let obj1 = obj\<lparr>matrix_world := matrix_of_flat (pre_unity_export_mx obj)\<rparr>;
          obj2 = obj1\<lparr>pre_unity_export_mx := flatten_matrix Matrix_Identity\<rparr>;
          obj3 = obj2\<lparr>unity_exported := False\<rparr>;
          obj4 = obj3\<lparr>modifiers := adjust_mirrors (modifiers obj3)\<rparr>;
          obj5 = obj4\<lparr>modifiers := adjust_bevels (\<lambda>w. w / 100) (modifiers obj4)\<rparr>;
          obj6 = (if detriangulate
                  then (let lastmod = (if modifiers obj5 \<noteq> [] then Some (last (modifiers obj5))
                                       else None)
                        in case lastmod of
                             Some m \<Rightarrow> if is_triangulate m
                                       then obj5\<lparr>modifiers := butlast (modifiers obj5)\<rparr>
                                       else obj5
                           | None \<Rightarrow> obj5)
                  else obj5)
      in if type obj6 = EMPTY
         then (obj6\<lparr>empty_display_size := empty_display_size obj6 / 100\<rparr>, meshes)
         else if type obj6 = MESH \<and> pre_unity_export_mesh obj6 \<noteq> None
         then (case pre_unity_export_mesh obj6 of
                 Some m \<Rightarrow> (obj6\<lparr>data := m, pre_unity_export_mesh := None\<rparr>,
                            meshes @ [data obj6])
               | None \<Rightarrow> (obj6, meshes))
         else (obj6, meshes))"

text \<open>
  \<^verbatim>\<open>restore_exported(obj, exported, meshes, detriangulate)\<close>, with
  \<open>restore_children\<close> the loop over \<^verbatim>\<open>obj.children\<close>.
\<close>

fun restore_exported ::
    "obj_tree \<Rightarrow> string list \<Rightarrow> nat list \<Rightarrow> bool \<Rightarrow> obj_tree \<times> nat list"
  and restore_children ::
    "obj_tree list \<Rightarrow> string list \<Rightarrow> nat list \<Rightarrow> bool \<Rightarrow> obj_tree list \<times> nat list" where
  "restore_exported (Node obj cs) exported meshes detriangulate =
     (if name obj \<in> set exported
      then (case restore_object detriangulate obj meshes of
              (obj', meshes1) \<Rightarrow>
                (case restore_children cs exported meshes1 detriangulate of
                   (cs', meshes2) \<Rightarrow> (Node obj' cs', meshes2)))
      else (Node obj cs, meshes))"
| "restore_children [] exported meshes detriangulate = ([], meshes)"
| "restore_children (c # cs) exported meshes detriangulate =
     (if name (root c) \<in> set exported
      then (case restore_exported c exported meshes detriangulate of
              (c', meshes1) \<Rightarrow>
                (case restore_children cs exported meshes1 detriangulate of
                   (cs', meshes2) \<Rightarrow> (c' # cs', meshes2)))
      else (case restore_children cs exported meshes detriangulate of
              (cs', meshes1) \<Rightarrow> (c # cs', meshes1)))"

subsection \<open>The two operators\<close>

text \<open>
  A scene: the forest of its objects, the mesh data blocks, the scene property
  \<^verbatim>\<open>scene.M3.unity_triangulate\<close>, and a count of the calls of the host's FBX exporter,
  which is all the model keeps of the export itself.
\<close>

record scene =
  objects :: "obj_tree list"
  bpy_data :: bdata
  unity_triangulate :: bool
  fbx_exports :: nat

datatype status = FINISHED | CANCELLED

text \<open>The keys held down in \<^verbatim>\<open>event\<close>.\<close>

record event =
  alt :: bool
  ctrl :: bool

definition all_objects :: "obj_tree list \<Rightarrow> object list" where
  "all_objects ts = concat (map objs ts)"

text \<open>\<^verbatim>\<open>context.visible_objects\<close> and \<^verbatim>\<open>context.selected_objects\<close>.\<close>

definition visible_objects :: "obj_tree list \<Rightarrow> object list" where
  "visible_objects ts = filter visible (all_objects ts)"

definition selected_objects :: "obj_tree list \<Rightarrow> object list" where
  "selected_objects ts = filter select (visible_objects ts)"

text \<open>
  \<^verbatim>\<open>for obj in context.visible_objects: obj.select_set(True)\<close>, on one tree of the
  forest.
\<close>

fun select_visible :: "obj_tree \<Rightarrow> obj_tree" where
  "select_visible (Node obj cs) =
     Node (if visible obj then obj\<lparr>select := True\<rparr> else obj) (map select_visible cs)"

text \<open>\<^verbatim>\<open>PrepareExport.poll\<close>: no visible object is flagged as exported.\<close>

definition PrepareExport_poll :: "scene \<Rightarrow> bool" where
  "PrepareExport_poll sc = (filter unity_exported (visible_objects (objects sc)) = [])"

text \<open>
  The loop \<^verbatim>\<open>for obj in roots: self.prepare_for_export(obj, sel, matrices, ...)\<close> with
  \<^verbatim>\<open>roots = [obj for obj in sel if not obj.parent]\<close>: the parentless objects are the
  roots of the forest, and those of \<open>sel\<close> are prepared in turn.
\<close>

fun prepare_roots ::
    "(mat4 \<Rightarrow> vec3 \<times> quat \<times> vec3) \<Rightarrow> obj_tree list \<Rightarrow> string list \<Rightarrow> (string \<rightharpoonup> mat4) \<Rightarrow> bool
     \<Rightarrow> bdata \<Rightarrow> (error \<times> obj_tree list \<times> bdata) + (obj_tree list \<times> bdata)" where
  "prepare_roots decompose [] sel matrices triangulate bd = Inr ([], bd)"
| "prepare_roots decompose (t # ts) sel matrices triangulate bd =
     (if name (root t) \<in> set sel
      then (case prepare_for_export decompose t sel matrices triangulate bd of
              Inl (e, t', bd1) \<Rightarrow> Inl (e, t' # ts, bd1)
            | Inr (t', bd1) \<Rightarrow>
                (case prepare_roots decompose ts sel matrices triangulate bd1 of
                   Inl (e, ts', bd2) \<Rightarrow> Inl (e, t' # ts', bd2)
                 | Inr (ts', bd2) \<Rightarrow> Inr (t' # ts', bd2)))
      else (case prepare_roots decompose ts sel matrices triangulate bd of
              Inl (e, ts', bd1) \<Rightarrow> Inl (e, t # ts', bd1)
            | Inr (ts', bd1) \<Rightarrow> Inr (t # ts', bd1)))"

text \<open>
  \<^verbatim>\<open>PrepareExport.invoke\<close>. The dictionary
  \<^verbatim>\<open>matrices\<close> is built from the selected objects in order, a later entry replacing
  an earlier one with the same key. An error carries the scene as it is when the
  preparation raises.
\<close>

definition PrepareExport_invoke ::
  "(mat4 \<Rightarrow> vec3 \<times> quat \<times> vec3) \<Rightarrow> event \<Rightarrow> scene \<Rightarrow> (error \<times> scene) + (status \<times> scene)" where
  "PrepareExport_invoke decompose ev sc =
     (let triangulate = unity_triangulate sc;
          ts = (if selected_objects (objects sc) = []
                then map select_visible (objects sc) else objects sc);
          sel = selected_objects ts;
          matrices = map_of (rev (map (\<lambda>obj. (name obj, matrix_world obj)) sel))
      in case prepare_roots decompose ts (map name sel) matrices triangulate (bpy_data sc) of
           Inl (e, ts', bd) \<Rightarrow> Inl (e, sc\<lparr>objects := ts', bpy_data := bd\<rparr>)
         | Inr (ts', bd) \<Rightarrow>
             Inr (FINISHED,
                  sc\<lparr>objects := ts', bpy_data := bd,
                     fbx_exports := (if \<not> alt ev then Suc (fbx_exports sc) else fbx_exports sc)\<rparr>))"

text \<open>\<^verbatim>\<open>RestoreExport.poll\<close>: some visible object is flagged as exported.\<close>

definition RestoreExport_poll :: "scene \<Rightarrow> bool" where
  "RestoreExport_poll sc = (filter unity_exported (visible_objects (objects sc)) \<noteq> [])"

text \<open>
  The loop \<^verbatim>\<open>for obj in roots: self.restore_exported(obj, exported, meshes, ...)\<close> with
  \<^verbatim>\<open>roots = [obj for obj in exported if not obj.parent]\<close>.
\<close>

fun restore_roots ::
    "obj_tree list \<Rightarrow> string list \<Rightarrow> nat list \<Rightarrow> bool \<Rightarrow> obj_tree list \<times> nat list" where
  "restore_roots [] exported meshes detriangulate = ([], meshes)"
| "restore_roots (t # ts) exported meshes detriangulate =
     (if name (root t) \<in> set exported
      then (case restore_exported t exported meshes detriangulate of
              (t', meshes1) \<Rightarrow>
                (case restore_roots ts exported meshes1 detriangulate of
                   (ts', meshes2) \<Rightarrow> (t' # ts', meshes2)))
      else (case restore_roots ts exported meshes detriangulate of
              (ts', meshes1) \<Rightarrow> (t # ts', meshes1)))"

text \<open>\<^verbatim>\<open>RestoreExport.execute\<close>.\<close>

definition RestoreExport_execute :: "scene \<Rightarrow> status \<times> scene" where
  "RestoreExport_execute sc =
     (let detriangulate = unity_triangulate sc;
          exported = filter unity_exported (visible_objects (objects sc))
      in case restore_roots (objects sc) (map name exported) [] detriangulate of
           (ts', meshes) \<Rightarrow>
             (FINISHED, sc\<lparr>objects := ts', bpy_data := batch_remove meshes (bpy_data sc)\<rparr>))"

subsection \<open>Notions for the properties of the export operators\<close>

text \<open>
  The objects that a preparation starting at a tree visits, as a list of booleans
  along \<open>objs\<close>: an object is visited when it and every object above it, up to the
  root of the tree, is in \<open>sel\<close>.
\<close>

fun visited :: "string list \<Rightarrow> obj_tree \<Rightarrow> bool list" where
  "visited sel (Node obj cs) =
     (if name obj \<in> set sel then True # concat (map (visited sel) cs)
      else replicate (length (objs (Node obj cs))) False)"

text \<open>
  What restoration has to reproduce on an object: the world matrix, the MIRROR and
  the BEVEL modifiers with their parameters, and the reference to the mesh data block.
\<close>

definition export_state_restored :: "object \<Rightarrow> object \<Rightarrow> bool" where
  "export_state_restored obj obj' =
     (matrix_world obj' = matrix_world obj \<and>
      filter is_mirror (modifiers obj') = filter is_mirror (modifiers obj) \<and>
      filter is_bevel (modifiers obj') = filter is_bevel (modifiers obj) \<and>
      data obj' = data obj)"

text \<open>
  The invariant of the export annotation, relative to the world matrices \<open>pre\<close> that
  the objects had before the preparation: an object that is flagged as prepared carries
  the saved copy of its pre-export matrix. \<open>annotation_cleared\<close> is the annotation
  after a visit of the restoration: the flag is off and the saved matrix is reset.
\<close>

definition export_invariant :: "(string \<rightharpoonup> mat4) \<Rightarrow> object \<Rightarrow> bool" where
  "export_invariant pre obj =
     (unity_exported obj \<longrightarrow> pre (name obj) = Some (matrix_of_flat (pre_unity_export_mx obj)))"

definition annotation_cleared :: "object \<Rightarrow> bool" where
  "annotation_cleared obj =
     (\<not> unity_exported obj \<and> pre_unity_export_mx obj = flatten_matrix Matrix_Identity)"

section \<open>Alignment (\<^verbatim>\<open>operators/align.py\<close>)\<close>

datatype align_mode = ORIGIN | CURSOR | ACTIVE | FLOOR

text \<open>
  The properties of the \<^verbatim>\<open>Align\<close> operator (\<^verbatim>\<open>self\<close>). The three component switches
  \<^verbatim>\<open>location\<close>, \<^verbatim>\<open>rotation\<close> and \<^verbatim>\<open>scale\<close> carry the prefix \<open>align_\<close>, since
  \<open>location\<close> is a field of the objects already.
\<close>

record Align =
  inbetween :: bool
  is_inbetween :: bool
  mode :: align_mode
  align_location :: bool
  align_rotation :: bool
  align_scale :: bool
  loc_x :: bool
  loc_y :: bool
  loc_z :: bool
  rot_x :: bool
  rot_y :: bool
  rot_z :: bool
  sca_x :: bool
  sca_y :: bool
  sca_z :: bool
  parent_to_bone :: bool
  align_z_to_y :: bool
  roll :: bool
  roll_amount :: real

text \<open>
  The body of the loop of \<^verbatim>\<open>align_to_origin\<close>. The Euler angles that the source takes
  from \<^verbatim>\<open>orot\<close> are not used by it and are left out.
\<close>

definition align_object_to_origin ::
  "(mat4 \<Rightarrow> vec3 \<times> quat \<times> vec3) \<Rightarrow> Align \<Rightarrow> object \<Rightarrow> object" where
  "align_object_to_origin decompose self obj =
     (let omx = matrix_world obj;
          (oloc, orot, osca) = decompose omx;
          (olocx, olocy, olocz) = oloc;
          loc = (if align_location self
                 then (let locx = (if loc_x self then 0 else olocx);
                           locy = (if loc_y self then 0 else olocy);
                           locz = (if loc_z self then 0 else olocz)
                       in get_loc_matrix (locx, locy, locz))
                 else get_loc_matrix oloc);
          rot = to_4x4 (quat_to_matrix orot);
          sca = get_sca_matrix osca
      in obj\<lparr>matrix_world := matmul (matmul loc rot) sca\<rparr>)"

definition align_to_origin ::
  "(mat4 \<Rightarrow> vec3 \<times> quat \<times> vec3) \<Rightarrow> Align \<Rightarrow> object list \<Rightarrow> object list" where
  "align_to_origin decompose self sel = map (align_object_to_origin decompose self) sel"

text \<open>
  \<^verbatim>\<open>align_to_active_bone(armature, bonename, sel)\<close>; looking up a bone that the armature
  does not have raises.
\<close>

definition align_to_active_bone ::
  "Align \<Rightarrow> object \<Rightarrow> string \<Rightarrow> object list \<Rightarrow> error + object list" where
  "align_to_active_bone self armature bonename sel =
     (case pose_bones armature bonename of
        None \<Rightarrow> Inl KeyError
      | Some bone_matrix \<Rightarrow>
          Inr (map (\<lambda>obj.
                 let obj1 = (if parent_to_bone self
                             then obj\<lparr>parent := Some (name armature), parent_type := ''BONE'',
                                     parent_bone := bonename\<rparr>
                             else obj)
                 in if align_z_to_y self
                    then obj1\<lparr>matrix_world :=
                           matmul (matmul (matmul (matrix_world armature) bone_matrix)
                                     (Matrix_Rotation (radians (- 90)) X))
                             (Matrix_Rotation
                                (radians (if roll self then roll_amount self else 0)) Z)\<rparr>
                    else obj1\<lparr>matrix_world :=
                           matmul (matmul (matrix_world armature) bone_matrix)
                             (Matrix_Rotation
                                (radians (if roll self then roll_amount self else 0)) Y)\<rparr>)
               sel))"

text \<open>Python's \<^verbatim>\<open>min\<close> of a sequence, which raises on the empty one.\<close>

fun py_min :: "real list \<Rightarrow> error + real" where
  "py_min [] = Inl ValueError"
| "py_min (x # xs) = Inr (fold min xs x)"

fun vec_z :: "vec3 \<Rightarrow> real" where
  "vec_z (x, y, z) = z"

text \<open>\<^verbatim>\<open>mx.translation.z -= d\<close>: one entry of the matrix changes.\<close>

fun translation_z_sub :: "mat4 \<Rightarrow> real \<Rightarrow> mat4" where
  "translation_z_sub (r0, r1, (a20, a21, a22, a23), r3) d = (r0, r1, (a20, a21, a22, a23 - d), r3)"

text \<open>\<^verbatim>\<open>[(mx @ v.co)[2] for v in obj.data.vertices]\<close>.\<close>

definition world_zs :: "mat4 \<Rightarrow> vec3 list \<Rightarrow> real list" where
  "world_zs mx vs = map (\<lambda>co. vec_z (mat_vec3 mx co)) vs"

text \<open>
  The body of the loop of \<^verbatim>\<open>drop_to_floor\<close>. The write to \<^verbatim>\<open>mx.translation.z\<close>
  goes through to the world matrix of the object, and the host then sets
  \<^verbatim>\<open>obj.location\<close> from the new matrix. What the host sets is the parameter
  \<open>local_location\<close>, given the object and its new world matrix.
\<close>

definition drop_object ::
  "(object \<Rightarrow> mat4 \<Rightarrow> vec3) \<Rightarrow> bdata \<Rightarrow> object \<Rightarrow> error + object" where
  "drop_object local_location bd obj =
     (let mx = matrix_world obj
      in if type obj = MESH
         then (case py_min (world_zs mx (vertices bd (data obj))) of
                 Inl e \<Rightarrow> Inl e
               | Inr minz \<Rightarrow>
                   Inr (obj\<lparr>matrix_world := translation_z_sub mx minz,
                           location := local_location obj (translation_z_sub mx minz)\<rparr>))
         else if type obj = EMPTY
         then Inr (obj\<lparr>matrix_world := translation_z_sub mx (vec_z (location obj)),
                      location :=
                        local_location obj (translation_z_sub mx (vec_z (location obj)))\<rparr>)
         else Inr obj)"

text \<open>
  \<^verbatim>\<open>drop_to_floor(selection)\<close>: the objects are handled in order and the first error
  ends the loop.
\<close>

fun drop_to_floor ::
    "(object \<Rightarrow> mat4 \<Rightarrow> vec3) \<Rightarrow> bdata \<Rightarrow> object list \<Rightarrow> error + object list" where
  "drop_to_floor local_location bd [] = Inr []"
| "drop_to_floor local_location bd (obj # selection) =
     (case drop_object local_location bd obj of
        Inl e \<Rightarrow> Inl e
      | Inr obj' \<Rightarrow>
          (case drop_to_floor local_location bd selection of
             Inl e \<Rightarrow> Inl e
           | Inr selection' \<Rightarrow> Inr (obj' # selection')))"

section \<open>Cursor operators (\<^verbatim>\<open>ui/operators/cursor.py\<close>)\<close>

datatype context_mode = OBJECT | EDIT_MESH | OTHER_MODE

text \<open>
  What the cursor operators read and write: the overlay switch that shows the cursor,
  the cursor's location and rotation (\<^verbatim>\<open>cmx.to_translation()\<close> and
  \<^verbatim>\<open>cmx.to_quaternion()\<close> of the cursor's matrix), the active and the selected objects,
  the pivot and orientation of the transform tools, the module variable \<^verbatim>\<open>cursor\<close>
  that keeps the previous pivot and orientation, whether the handler that draws the
  object axes is installed, whether the hyper cursor tool is the active tool, the four
  preferences that the operators consult, and the popup messages shown to the user.
\<close>

record bpy_context =
  show_cursor :: bool
  cursor_location :: vec3
  cursor_rotation :: quat
  active_object :: "object option"
  context_selected_objects :: "object list"
  context_mode :: context_mode
  transform_pivot_point :: string
  transform_orientation :: string
  cursor_global :: "(string \<times> string) option"
  draw_object_axes :: bool
  hyper_cursor_tool :: bool
  cursor_set_transform_preset :: bool
  cursor_toggle_axes_drawing :: bool
  activate_transform_pie :: bool
  activate_shading_pie :: bool
  popups :: "(string \<times> string) list"

text \<open>
  Modelled from the spec: \<^verbatim>\<open>popup_message\<close> of \<^verbatim>\<open>utils/ui.py\<close>, the "user-visible
  message on invalid modifier-key combinations"; \<^verbatim>\<open>set_cursor\<close> of \<^verbatim>\<open>utils/scene.py\<close>,
  which sets location and rotation of the cursor; and the operator
  \<^verbatim>\<open>machin3.set_transform_preset\<close>, which sets pivot and orientation of the
  transform tools.
\<close>

definition popup_message :: "string \<Rightarrow> string \<Rightarrow> bpy_context \<Rightarrow> bpy_context" where
  "popup_message message title ctx = ctx\<lparr>popups := popups ctx @ [(title, message)]\<rparr>"

definition set_cursor :: "vec3 \<Rightarrow> quat \<Rightarrow> bpy_context \<Rightarrow> bpy_context" where
  "set_cursor loc rot ctx = ctx\<lparr>cursor_location := loc, cursor_rotation := rot\<rparr>"

definition set_transform_preset :: "string \<Rightarrow> string \<Rightarrow> bpy_context \<Rightarrow> bpy_context" where
  "set_transform_preset pivot orientation ctx =
     ctx\<lparr>transform_pivot_point := pivot, transform_orientation := orientation\<rparr>"

text \<open>\<^verbatim>\<open>CursorToOrigin.invoke\<close>.\<close>

definition CursorToOrigin_invoke :: "event \<Rightarrow> bpy_context \<Rightarrow> status \<times> bpy_context" where
  "CursorToOrigin_invoke ev ctx =
     (if alt ev \<and> ctrl ev
      then (CANCELLED,
            popup_message ''Hold down ATL, CTRL or neither, not both!'' ''Invalid Modifier Keys'' ctx)
      else
        (let ctx1 = (if \<not> show_cursor ctx then ctx\<lparr>show_cursor := True\<rparr> else ctx);
             ctx2 = set_cursor (if ctrl ev then cursor_location ctx1 else (0, 0, 0))
                      (if alt ev then cursor_rotation ctx1 else (1, 0, 0, 0)) ctx1;
             ctx3 = (if cursor_set_transform_preset ctx2
                     then (case cursor_global ctx2 of
                             Some (pivot, orientation) \<Rightarrow>
                               (set_transform_preset pivot orientation ctx2)\<lparr>cursor_global := None\<rparr>
                           | None \<Rightarrow> ctx2)
                     else ctx2);
             ctx4 = (if cursor_toggle_axes_drawing ctx3
                     then (if draw_object_axes ctx3 then ctx3\<lparr>draw_object_axes := False\<rparr> else ctx3)
                     else ctx3)
         in (FINISHED, ctx4)))"

text \<open>\<^verbatim>\<open>CursorToSelected.cursor_to_active_object\<close>.\<close>

definition cursor_to_active_object ::
  "(mat4 \<Rightarrow> vec3 \<times> quat \<times> vec3) \<Rightarrow> object \<Rightarrow> bool \<Rightarrow> bool \<Rightarrow> bpy_context \<Rightarrow> bpy_context" where
  "cursor_to_active_object decompose active only_location only_rotation ctx =
     (case decompose (matrix_world active) of
        (loc, rot, sca) \<Rightarrow>
          set_cursor (if only_rotation then cursor_location ctx else loc)
            (if only_location then cursor_rotation ctx else rot) ctx)"

text \<open>
  \<^verbatim>\<open>CursorToSelected.cursor_to_editmesh\<close>. The location and the rotation that the source
  computes from the selected vertices, edges or faces of the host's edit mesh are the
  parameter \<open>editmesh\<close>.
\<close>

definition cursor_to_editmesh ::
  "(bpy_context \<Rightarrow> vec3 \<times> quat) \<Rightarrow> bool \<Rightarrow> bool \<Rightarrow> bpy_context \<Rightarrow> bpy_context" where
  "cursor_to_editmesh editmesh only_location only_rotation ctx =
     (case editmesh ctx of
        (loc, rot) \<Rightarrow>
          set_cursor (if only_rotation then cursor_location ctx else loc)
            (if only_location then cursor_rotation ctx else rot) ctx)"

text \<open>\<^verbatim>\<open>CursorToSelected.set_cursor_transform_preset\<close>.\<close>

definition set_cursor_transform_preset :: "bpy_context \<Rightarrow> bpy_context" where
  "set_cursor_transform_preset ctx =
     (let pivot = transform_pivot_point ctx;
          orientation = transform_orientation ctx;
          ctx1 = (if pivot \<noteq> ''CURSOR'' \<and> orientation \<noteq> ''CURSOR''
                  then ctx\<lparr>cursor_global := Some (pivot, orientation)\<rparr> else ctx)
      in set_transform_preset ''CURSOR'' ''CURSOR'' ctx1)"

text \<open>\<^verbatim>\<open>CursorToSelected.enable_cursor_axes_drawing\<close>: the handler is installed anew.\<close>

definition enable_cursor_axes_drawing :: "bpy_context \<Rightarrow> bpy_context" where
  "enable_cursor_axes_drawing ctx = ctx\<lparr>draw_object_axes := True\<rparr>"

text \<open>
  The two blocks of \<^verbatim>\<open>CursorToSelected.invoke\<close> that set the transform preset and
  draw the axes, which are the same after both ways of placing the cursor.
\<close>

definition preset_and_axes :: "bpy_context \<Rightarrow> bpy_context" where
  "preset_and_axes ctx =
     (if \<not> hyper_cursor_tool ctx
      then (let ctx1 = (if activate_transform_pie ctx \<and> cursor_set_transform_preset ctx
                        then set_cursor_transform_preset ctx else ctx)
            in if activate_shading_pie ctx1 \<and> cursor_toggle_axes_drawing ctx1
               then enable_cursor_axes_drawing ctx1 else ctx1)
      else ctx)"

text \<open>
  \<^verbatim>\<open>CursorToSelected.invoke\<close>. The host's operator \<^verbatim>\<open>view3d.snap_cursor_to_selected\<close>
  is the parameter \<open>snap_cursor_to_selected\<close>. When there are selected objects and no
  active one, the source makes the first of them active and then calls
  \<^verbatim>\<open>sel.remove(active)\<close> with \<^verbatim>\<open>active\<close> still \<^verbatim>\<open>None\<close>, which raises. In
  edit mode without an active object, \<^verbatim>\<open>cursor_to_editmesh\<close> reads
  \<^verbatim>\<open>active.data\<close>, which raises as well.
\<close>

definition CursorToSelected_invoke ::
  "(mat4 \<Rightarrow> vec3 \<times> quat \<times> vec3) \<Rightarrow> (bpy_context \<Rightarrow> vec3 \<times> quat) \<Rightarrow> (bpy_context \<Rightarrow> bpy_context)
   \<Rightarrow> event \<Rightarrow> bpy_context \<Rightarrow> error + (status \<times> bpy_context)" where
  "CursorToSelected_invoke decompose editmesh snap_cursor_to_selected ev ctx =
     (let ctx1 = (if \<not> show_cursor ctx then ctx\<lparr>show_cursor := True\<rparr> else ctx);
          active = active_object ctx1;
          sel = filter (\<lambda>obj. Some obj \<noteq> active) (context_selected_objects ctx1)
      in if sel \<noteq> [] \<and> active = None
         then Inl ValueError
         else if alt ev \<and> ctrl ev
         then Inr (CANCELLED,
                   popup_message ''Hold down ATL, CTRL or neither, not both!''
                     ''Invalid Modifier Keys'' ctx1)
         else (case active of
                 Some act \<Rightarrow>
                   if context_mode ctx1 = OBJECT \<and> sel = []
                   then Inr (FINISHED,
                             preset_and_axes
                               (cursor_to_active_object decompose act (alt ev) (ctrl ev) ctx1))
                   else if context_mode ctx1 = EDIT_MESH
                   then Inr (FINISHED,
                             preset_and_axes (cursor_to_editmesh editmesh (alt ev) (ctrl ev) ctx1))
                   else Inr (FINISHED, snap_cursor_to_selected ctx1)
               | None \<Rightarrow>
                   if context_mode ctx1 = EDIT_MESH
                   then Inl AttributeError
                   else Inr (FINISHED, snap_cursor_to_selected ctx1)))"

section \<open>Example scenes\<close>

text \<open>
  The host's \<^verbatim>\<open>Matrix.decompose\<close> on a matrix that only translates: the location is
  the fourth column, the rotation is the identity quaternion and the scale is one.
  The examples below use it on such matrices only.
\<close>

definition decompose_translation :: "mat4 \<Rightarrow> vec3 \<times> quat \<times> vec3" where
  "decompose_translation mx = (to_translation mx, (1, 0, 0, 0), (1, 1, 1))"

definition example_object :: "string \<Rightarrow> object_type \<Rightarrow> object" where
  "example_object n ty =
     \<lparr>name = n, type = ty, matrix_world = Matrix_Identity, location = (0, 0, 0),
      modifiers = [], empty_display_size = 1, data = 0, unity_exported = False,
      pre_unity_export_mx = flatten_matrix Matrix_Identity, pre_unity_export_mesh = None,
      parent = None, parent_type = ''OBJECT'', parent_bone = '''', pose_bones = Map.empty,
      visible = True, select = True\<rparr>"

definition example_bdata :: bdata where
  "example_bdata = \<lparr>vertices = (\<lambda>m. []), meshes_in_use = [0], next_mesh = 1\<rparr>"

definition example_mirror :: "bool \<Rightarrow> modifier" where
  "example_mirror shown =
     \<lparr>mod_name = ''Mirror'', show_viewport = shown, show_expanded = True,
      params = MIRROR (True, True, False) (False, True, False) (False, False, True)\<rparr>"

definition example_bevel :: "bool \<Rightarrow> modifier" where
  "example_bevel shown =
     \<lparr>mod_name = ''Bevel'', show_viewport = shown, show_expanded = True,
      params = BEVEL (1 / 4)\<rparr>"

definition mirrored_cube :: "bool \<Rightarrow> object" where
  "mirrored_cube shown =
     (example_object ''Cube'' MESH)\<lparr>modifiers := [example_mirror shown, example_bevel shown]\<rparr>"

text \<open>
  A chain of three objects: \<open>A\<close> and \<open>C\<close> are selected, \<open>B\<close> between them is
  not.
\<close>

definition chain_scene :: scene where
  "chain_scene =
     \<lparr>objects =
        [Node (example_object ''A'' EMPTY)
           [Node ((example_object ''B'' EMPTY)\<lparr>select := False\<rparr>)
              [Node (example_object ''C'' MESH) []]]],
      bpy_data = example_bdata, unity_triangulate = False, fbx_exports = 0\<rparr>"

text \<open>
  A scene for the two export operators: a cube with a MIRROR and a BEVEL modifier, an
  unselected empty and a mesh with a triangulation modifier of its own below it.
\<close>

definition export_example_scene :: scene where
  "export_example_scene =
     \<lparr>objects =
        [Node (mirrored_cube True)
           [Node ((example_object ''Empty'' EMPTY)\<lparr>select := False\<rparr>) [],
            Node ((example_object ''Child'' MESH)\<lparr>data := 0, modifiers := [new_triangulate]\<rparr>) []]],
      bpy_data = example_bdata, unity_triangulate = True, fbx_exports = 0\<rparr>"

text \<open>
  A mesh that has a triangulation modifier of its own, and an empty that is moved
  away from the origin.
\<close>

definition own_triangulate :: modifier where
  "own_triangulate =
     \<lparr>mod_name = ''Own Triangulate'', show_viewport = True, show_expanded = True,
      params = TRIANGULATE False\<rparr>"

definition triangulated_mesh :: object where
  "triangulated_mesh = (example_object ''Mesh'' MESH)\<lparr>modifiers := [own_triangulate]\<rparr>"

definition moved_empty :: object where
  "moved_empty = (example_object ''Empty'' EMPTY)\<lparr>matrix_world := get_loc_matrix (1, 2, 3)\<rparr>"

text \<open>The moved empty after a visit of the preparation.\<close>

definition prepared_empty :: object where
  "prepared_empty =
     fst (prepare_object decompose_translation (get_loc_matrix (1, 2, 3)) False moved_empty
            example_bdata)"

text \<open>The properties of the alignment operator with their default values.\<close>

definition default_align :: Align where
  "default_align =
     \<lparr>inbetween = False, is_inbetween = True, mode = ACTIVE,
      align_location = True, align_rotation = True, align_scale = False,
      loc_x = True, loc_y = True, loc_z = True,
      rot_x = True, rot_y = True, rot_z = True,
      sca_x = True, sca_y = True, sca_z = True,
      parent_to_bone = True, align_z_to_y = True, roll = False, roll_amount = 90\<rparr>"

text \<open>
  An object turned by half a turn about Z and moved to \<open>(1, 2, 3)\<close>, with the host's
  \<^verbatim>\<open>Matrix.decompose\<close> on matrices that have this half turn as their 3x3 block: the
  rotation is the quaternion \<open>(0, 0, 0, 1)\<close> and the scale is one.
\<close>

definition half_turn_z :: mat4 where
  "half_turn_z = ((- 1, 0, 0, 1), (0, - 1, 0, 2), (0, 0, 1, 3), (0, 0, 0, 1))"

definition decompose_half_turn_z :: "mat4 \<Rightarrow> vec3 \<times> quat \<times> vec3" where
  "decompose_half_turn_z mx = (to_translation mx, (0, 0, 0, 1), (1, 1, 1))"

definition turned_cube :: object where
  "turned_cube = (example_object ''Cube'' MESH)\<lparr>matrix_world := half_turn_z\<rparr>"

text \<open>An armature at the origin with one bone, whose matrix is the identity.\<close>

definition example_armature :: object where
  "example_armature =
     (example_object ''Armature'' OTHER)\<lparr>pose_bones := [''Bone'' \<mapsto> Matrix_Identity]\<rparr>"

text \<open>
  Mesh data for the floor alignment: data block 1 has three vertices at the heights
  -2, 0 and 3, data block 0 has no vertex.
\<close>

definition floor_bdata :: bdata where
  "floor_bdata =
     \<lparr>vertices = (\<lambda>m. if m = 1 then [(0, 0, - 2), (1, 0, 0), (0, 1, 3)] else []),
      meshes_in_use = [0, 1], next_mesh = 2\<rparr>"

text \<open>
  The host's \<^verbatim>\<open>obj.location\<close> for an object without a parent: the translation of its
  world matrix. The objects of the examples have no parent.
\<close>

definition unparented_location :: "object \<Rightarrow> mat4 \<Rightarrow> vec3" where
  "unparented_location obj mx = to_translation mx"

definition floor_mesh :: object where
  "floor_mesh = (example_object ''Mesh'' MESH)\<lparr>data := 1\<rparr>"

definition vertexless_mesh :: object where
  "vertexless_mesh = (example_object ''Bare'' MESH)\<lparr>data := 0\<rparr>"

text \<open>
  A context in object mode in which the cursor is hidden and the one selected object is
  the active one.
\<close>

definition hidden_cursor_context :: bpy_context where
  "hidden_cursor_context =
     \<lparr>show_cursor = False, cursor_location = (1, 2, 3), cursor_rotation = (1, 0, 0, 0),
      active_object = Some (example_object ''Cube'' MESH),
      context_selected_objects = [example_object ''Cube'' MESH],
      context_mode = OBJECT,
      transform_pivot_point = ''MEDIAN_POINT'', transform_orientation = ''GLOBAL'',
      cursor_global = None, draw_object_axes = False, hyper_cursor_tool = False,
      cursor_set_transform_preset = True, cursor_toggle_axes_drawing = True,
      activate_transform_pie = True, activate_shading_pie = True, popups = []\<rparr>"

section \<open>Export preparation and restoration: properties\<close>

lemma matrix_of_flat_flatten: "matrix_of_flat (flatten_matrix mx) = mx"
  by (cases mx rule: transpose4.cases) (simp add: matrix_of_flat_def flatten_matrix_def)

lemma swap_yz_twice: "swap_yz (swap_yz f) = f"
  by (cases f rule: swap_yz.cases) simp

lemma prepare_object_name: "name (fst (prepare_object dec mx tri obj bd)) = name obj"
  by (simp add: prepare_object_def Let_def split: prod.splits)

lemma prepare_object_type: "type (fst (prepare_object dec mx tri obj bd)) = type obj"
  by (simp add: prepare_object_def Let_def split: prod.splits)

lemma prepare_object_visible: "visible (fst (prepare_object dec mx tri obj bd)) = visible obj"
  by (simp add: prepare_object_def Let_def split: prod.splits)

lemma prepare_object_flag: "unity_exported (fst (prepare_object dec mx tri obj bd))"
  by (simp add: prepare_object_def Let_def split: prod.splits)

lemma prepare_object_saved:
  "pre_unity_export_mx (fst (prepare_object dec mx tri obj bd)) = flatten_matrix mx"
  by (simp add: prepare_object_def Let_def split: prod.splits)

lemma prepare_object_modifiers:
  "modifiers (fst (prepare_object dec mx tri obj bd)) =
     adjust_bevels (\<lambda>w. w * 100) (adjust_mirrors (modifiers obj)) @
     (if tri \<and> type obj = MESH then [new_triangulate] else [])"
  by (simp add: prepare_object_def Let_def split: prod.splits)

lemma prepare_object_saved_mesh:
  "pre_unity_export_mesh (fst (prepare_object dec mx tri obj bd)) =
     (if type obj = MESH then Some (data obj) else pre_unity_export_mesh obj)"
  by (simp add: prepare_object_def Let_def split: prod.splits)

lemma prepare_object_data:
  "data (fst (prepare_object dec mx tri obj bd)) =
     (if type obj = MESH then next_mesh bd else data obj)"
  by (simp add: prepare_object_def Let_def mesh_copy_def split: prod.splits)

lemma restore_object_matrix:
  "matrix_world (fst (restore_object detri obj meshes)) = matrix_of_flat (pre_unity_export_mx obj)"
  by (simp add: restore_object_def Let_def split: option.splits)

lemma restore_object_flag: "\<not> unity_exported (fst (restore_object detri obj meshes))"
  by (simp add: restore_object_def Let_def split: option.splits)

lemma restore_object_saved:
  "pre_unity_export_mx (fst (restore_object detri obj meshes)) = flatten_matrix Matrix_Identity"
  by (simp add: restore_object_def Let_def split: option.splits)

lemma restore_object_name: "name (fst (restore_object detri obj meshes)) = name obj"
  by (simp add: restore_object_def Let_def split: option.splits)

lemma restore_object_modifiers:
  "modifiers (fst (restore_object detri obj meshes)) =
     (let ms = adjust_bevels (\<lambda>w. w / 100) (adjust_mirrors (modifiers obj))
      in if detri \<and> ms \<noteq> [] \<and> is_triangulate (last ms) then butlast ms else ms)"
  by (simp add: restore_object_def Let_def split: option.splits)

lemma restore_object_data:
  "data (fst (restore_object detri obj meshes)) =
     (if type obj = MESH then (case pre_unity_export_mesh obj of Some m \<Rightarrow> m | None \<Rightarrow> data obj)
      else data obj)"
  by (simp add: restore_object_def Let_def split: option.splits)

lemma adjust_roundtrip_one:
  "(\<lambda>m. if is_bevel m \<and> show_viewport m then scale_bevel (\<lambda>w. w / 100) m else m)
     ((\<lambda>m. if is_mirror m \<and> show_viewport m then swap_mirror m else m)
       ((\<lambda>m. if is_bevel m \<and> show_viewport m then scale_bevel (\<lambda>w. w * 100) m else m)
         ((\<lambda>m. if is_mirror m \<and> show_viewport m then swap_mirror m else m) m))) = m"
  by (cases "params m") (simp_all add: swap_yz_twice)

lemma adjust_roundtrip:
  "adjust_bevels (\<lambda>w. w / 100) (adjust_mirrors (adjust_bevels (\<lambda>w. w * 100) (adjust_mirrors mods))) = mods"
  unfolding adjust_bevels_def adjust_mirrors_def map_map comp_def
  using adjust_roundtrip_one by (simp add: map_idI)

lemma adjust_new_triangulate:
  "adjust_bevels f (adjust_mirrors [new_triangulate]) = [new_triangulate]"
  by (simp add: adjust_bevels_def adjust_mirrors_def new_triangulate_def)

lemma adjust_append:
  "adjust_bevels f (adjust_mirrors (xs @ ys)) =
     adjust_bevels f (adjust_mirrors xs) @ adjust_bevels f (adjust_mirrors ys)"
  by (simp add: adjust_bevels_def adjust_mirrors_def)

lemma restore_prepare_modifiers:
  "modifiers (fst (restore_object detri (fst (prepare_object dec mx tri obj bd)) meshes)) =
     (let ms = modifiers obj @ (if tri \<and> type obj = MESH then [new_triangulate] else [])
      in if detri \<and> ms \<noteq> [] \<and> is_triangulate (last ms) then butlast ms else ms)"
  by (simp add: restore_object_modifiers prepare_object_modifiers adjust_append
      adjust_roundtrip adjust_new_triangulate Let_def adjust_bevels_def[of _ "[]"] adjust_mirrors_def[of "[]"])

lemma filter_butlast_not_last:
  "xs \<noteq> [] \<Longrightarrow> \<not> P (last xs) \<Longrightarrow> filter P (butlast xs) = filter P xs"
  by (induction xs) auto

lemma triangulate_not_mirror: "is_triangulate m \<Longrightarrow> \<not> is_mirror m"
  by (cases "params m") simp_all

lemma triangulate_not_bevel: "is_triangulate m \<Longrightarrow> \<not> is_bevel m"
  by (cases "params m") simp_all

lemma new_triangulate_kind:
  "is_triangulate new_triangulate" "\<not> is_mirror new_triangulate" "\<not> is_bevel new_triangulate"
  by (simp_all add: new_triangulate_def)

lemma restore_prepare_mirrors:
  "filter is_mirror (modifiers (fst (restore_object detri (fst (prepare_object dec mx tri obj bd)) meshes)))
     = filter is_mirror (modifiers obj)"
  by (auto simp add: restore_prepare_modifiers Let_def new_triangulate_kind
      filter_butlast_not_last triangulate_not_mirror
      simp del: is_mirror.simps is_triangulate.simps)

lemma restore_prepare_bevels:
  "filter is_bevel (modifiers (fst (restore_object detri (fst (prepare_object dec mx tri obj bd)) meshes)))
     = filter is_bevel (modifiers obj)"
  by (auto simp add: restore_prepare_modifiers Let_def new_triangulate_kind
      filter_butlast_not_last triangulate_not_bevel
      simp del: is_bevel.simps is_triangulate.simps)

lemma restore_prepare_matrix:
  "matrix_world (fst (restore_object detri (fst (prepare_object dec mx tri obj bd)) meshes)) = mx"
  by (simp add: restore_object_matrix prepare_object_saved matrix_of_flat_flatten)

lemma restore_prepare_data:
  "data (fst (restore_object detri (fst (prepare_object dec mx tri obj bd)) meshes)) = data obj"
  by (simp add: restore_object_data prepare_object_data prepare_object_type prepare_object_saved_mesh)

lemma export_state_restored_refl: "export_state_restored obj obj"
  by (simp add: export_state_restored_def)

lemma restore_prepare_object:
  "export_state_restored obj
     (fst (restore_object detri (fst (prepare_object dec (matrix_world obj) tri obj bd)) meshes))"
  unfolding export_state_restored_def
  by (simp only: restore_prepare_matrix restore_prepare_mirrors restore_prepare_bevels
      restore_prepare_data)

lemma restore_exported_skip:
  "name (root t) \<notin> set exported \<Longrightarrow> restore_exported t exported meshes detri = (t, meshes)"
  by (cases t) simp

lemma restore_children_Cons:
  "restore_children (c # cs) exported meshes detri =
     (case restore_exported c exported meshes detri of
        (c', m1) \<Rightarrow> (case restore_children cs exported m1 detri of
                       (cs', m2) \<Rightarrow> (c' # cs', m2)))"
  by (simp add: restore_exported_skip)

lemma roundtrip_trees:
  "prepare_for_export dec t sel M tri bd = Inr (t', bd') \<Longrightarrow>
     (\<forall>obj\<in>set (objs t). visible obj \<longrightarrow> \<not> unity_exported obj) \<Longrightarrow>
     (\<forall>obj\<in>set (objs t). name obj \<in> set sel \<longrightarrow>
        visible obj \<and> M (name obj) = Some (matrix_world obj)) \<Longrightarrow>
     (\<forall>obj\<in>set (objs t'). (name obj \<in> set exported) = (visible obj \<and> unity_exported obj)) \<Longrightarrow>
     list_all2 export_state_restored (objs t)
       (objs (fst (restore_exported t' exported meshes detri)))"
  "prepare_children dec cs sel M tri bd = Inr (cs', bd') \<Longrightarrow>
     (\<forall>obj\<in>set (concat (map objs cs)). visible obj \<longrightarrow> \<not> unity_exported obj) \<Longrightarrow>
     (\<forall>obj\<in>set (concat (map objs cs)). name obj \<in> set sel \<longrightarrow>
        visible obj \<and> M (name obj) = Some (matrix_world obj)) \<Longrightarrow>
     (\<forall>obj\<in>set (concat (map objs cs')).
        (name obj \<in> set exported) = (visible obj \<and> unity_exported obj)) \<Longrightarrow>
     list_all2 export_state_restored (concat (map objs cs))
       (concat (map objs (fst (restore_children cs' exported meshes detri))))"
proof (induction dec t sel M tri bd and dec cs sel M tri bd
    arbitrary: t' bd' meshes and cs' bd' meshes
    rule: prepare_for_export_prepare_children.induct)
  case (1 dec obj cs sel M tri bd)
  show ?case
  proof (cases "name obj \<in> set sel")
    case False
    with "1.prems"(1) have t': "t' = Node obj cs" by simp
    from "1.prems"(2,4) t' have "name obj \<notin> set exported" by simp
    then show ?thesis using t'
      by (simp add: list.rel_refl export_state_restored_refl)
  next
    case True
    with "1.prems"(3) have mx: "M (name obj) = Some (matrix_world obj)" and vis: "visible obj"
      by simp_all
    obtain obj' bd1 where po: "prepare_object dec (matrix_world obj) tri obj bd = (obj', bd1)"
      by (cases "prepare_object dec (matrix_world obj) tri obj bd")
    from "1.prems"(1) True mx po obtain cs' where
      pc: "prepare_children dec cs sel M tri bd1 = Inr (cs', bd')" and t': "t' = Node obj' cs'"
      by (auto split: sum.splits)
    have obj': "obj' = fst (prepare_object dec (matrix_world obj) tri obj bd)" using po by simp
    have "unity_exported obj'" "visible obj'"
      unfolding obj' using vis by (simp_all add: prepare_object_flag prepare_object_visible)
    with "1.prems"(4) t' have ex: "name obj' \<in> set exported" by simp
    obtain obj'' m1 where ro: "restore_object detri obj' meshes = (obj'', m1)"
      by (cases "restore_object detri obj' meshes")
    have R: "export_state_restored obj obj''"
      using restore_prepare_object[of obj detri dec tri bd meshes] ro obj' by simp
    have IH: "list_all2 export_state_restored (concat (map objs cs))
       (concat (map objs (fst (restore_children cs' exported m1 detri))))"
      using "1.IH"[OF True mx po[symmetric] pc] "1.prems"(2,3,4) t' by simp
    show ?thesis using t' ex ro R IH by (simp add: case_prod_beta)
  qed
next
  case (2 dec sel M tri bd)
  then show ?case by simp
next
  case (3 dec c cs sel M tri bd)
  show ?case
  proof (cases "name (root c) \<in> set sel")
    case True
    from "3.prems"(1) True obtain c' bd1 cs1 where
      pc: "prepare_for_export dec c sel M tri bd = Inr (c', bd1)" and
      pcs: "prepare_children dec cs sel M tri bd1 = Inr (cs1, bd')" and
      cs': "cs' = c' # cs1"
      by (auto split: sum.splits)
    have A: "list_all2 export_state_restored (objs c)
       (objs (fst (restore_exported c' exported meshes detri)))"
      using "3.IH"(1)[OF True pc] "3.prems"(2,3,4) cs' by simp
    have B: "list_all2 export_state_restored (concat (map objs cs))
       (concat (map objs (fst (restore_children cs1 exported
          (snd (restore_exported c' exported meshes detri)) detri))))"
      using "3.IH"(2)[OF True pc refl pcs] "3.prems"(2,3,4) cs' by simp
    show ?thesis using A B cs'
      by (simp add: restore_children_Cons case_prod_beta list_all2_appendI
          del: restore_children.simps)
  next
    case False
    from "3.prems"(1) False obtain cs1 where
      pcs: "prepare_children dec cs sel M tri bd = Inr (cs1, bd')" and
      cs': "cs' = c # cs1"
      by (auto split: sum.splits)
    have "visible (root c) \<longrightarrow> \<not> unity_exported (root c)" using "3.prems"(2) by (cases c) simp
    moreover have "(name (root c) \<in> set exported) = (visible (root c) \<and> unity_exported (root c))"
      using "3.prems"(4) cs' by (cases c) simp
    ultimately have skip: "restore_exported c exported meshes detri = (c, meshes)"
      by (auto simp add: restore_exported_skip)
    have B: "list_all2 export_state_restored (concat (map objs cs))
       (concat (map objs (fst (restore_children cs1 exported meshes detri))))"
      using "3.IH"(3)[OF False pcs] "3.prems"(2,3,4) cs' by simp
    show ?thesis using B cs' skip
      by (simp add: restore_children_Cons case_prod_beta list_all2_appendI
          list.rel_refl export_state_restored_refl del: restore_children.simps)
  qed
qed

lemma adjusted_modifier:
  "i < length mods \<Longrightarrow>
   adjust_bevels f (adjust_mirrors mods) ! i =
     (let m = mods ! i in
      if show_viewport m
      then (case params m of
              MIRROR u b fl \<Rightarrow> m\<lparr>params := MIRROR (swap_yz u) (swap_yz b) (swap_yz fl)\<rparr>
            | BEVEL w \<Rightarrow> m\<lparr>params := BEVEL (f w)\<rparr>
            | _ \<Rightarrow> m)
      else m)"
  by (cases "params (mods ! i)") (simp_all add: adjust_bevels_def adjust_mirrors_def Let_def)

lemma prepare_for_export_root:
  "prepare_for_export dec (Node obj cs) sel M tri bd = Inr (t', bd') \<Longrightarrow> name obj \<in> set sel \<Longrightarrow>
   \<exists>mx. M (name obj) = Some mx \<and> root t' = fst (prepare_object dec mx tri obj bd)"
  by (auto split: option.splits sum.splits prod.splits)

text \<open>
  Claim C7, as the code has it: when export preparation visits an object, a MIRROR
  modifier that is shown in the viewport has the Y and Z entries of its three axis flag
  sets swapped and a BEVEL modifier that is shown in the viewport has its width
  multiplied by 100; a modifier that is not shown in the viewport, and a modifier of
  any other type, is left as it is.
\<close>

theorem prepare_adjusts_shown_modifiers:
  assumes "prepare_for_export decompose (Node obj cs) sel matrices triangulate bd = Inr (t', bd')"
    and "name obj \<in> set sel"
    and "i < length (modifiers obj)"
  shows "modifiers (root t') ! i =
     (let m = modifiers obj ! i in
      if show_viewport m
      then (case params m of
              MIRROR u b f \<Rightarrow> m\<lparr>params := MIRROR (swap_yz u) (swap_yz b) (swap_yz f)\<rparr>
            | BEVEL w \<Rightarrow> m\<lparr>params := BEVEL (w * 100)\<rparr>
            | _ \<Rightarrow> m)
      else m)"
proof -
  from prepare_for_export_root[OF assms(1,2)] obtain mx where
    r: "root t' = fst (prepare_object decompose mx triangulate obj bd)" by blast
  have "i < length (adjust_bevels (\<lambda>w. w * 100) (adjust_mirrors (modifiers obj)))"
    using assms(3) by (simp add: adjust_bevels_def adjust_mirrors_def)
  then show ?thesis
    using assms(3) by (simp only: r prepare_object_modifiers nth_append if_True adjusted_modifier)
qed

lemma mirrored_cube_prepared:
  "prepare_for_export decompose_translation (Node (mirrored_cube True) []) [''Cube'']
     [''Cube'' \<mapsto> Matrix_Identity] False example_bdata
   = Inr (Node (fst (prepare_object decompose_translation Matrix_Identity False (mirrored_cube True) example_bdata)) [],
          snd (prepare_object decompose_translation Matrix_Identity False (mirrored_cube True) example_bdata))"
  by (simp add: mirrored_cube_def example_object_def case_prod_beta)

theorem prepare_adjusts_shown_modifiers_witness:
  "modifiers (fst (prepare_object decompose_translation Matrix_Identity False
       (mirrored_cube True) example_bdata)) ! 0 =
     (example_mirror True)\<lparr>params := MIRROR (True, False, True) (False, False, True) (False, True, False)\<rparr>"
  using prepare_adjusts_shown_modifiers[OF mirrored_cube_prepared, of 0]
  by (simp add: mirrored_cube_def example_object_def example_mirror_def)

text \<open>
  A MIRROR and a BEVEL modifier that are hidden in the viewport come out of the
  preparation unchanged: the Y and Z flags \<open>(True, True, False)\<close> are not swapped
  and the width \<open>1 / 4\<close> is not multiplied.
\<close>

theorem hidden_mirror_not_swapped:
  "(case prepare_for_export decompose_translation (Node (mirrored_cube False) []) [''Cube'']
          [''Cube'' \<mapsto> Matrix_Identity] False example_bdata of
      Inr (t', bd') \<Rightarrow> map params (modifiers (root t'))
    | Inl e \<Rightarrow> []) =
   [MIRROR (True, True, False) (False, True, False) (False, False, True), BEVEL (1 / 4)]"
  by (simp add: mirrored_cube_def example_object_def example_mirror_def example_bevel_def
      prepare_object_def decompose_translation_def Matrix_Identity_def mesh_copy_def
      adjust_mirrors_def adjust_bevels_def Let_def)

lemma prepare_roots_children:
  "prepare_roots dec ts sel M tri bd = prepare_children dec ts sel M tri bd"
  by (induction ts arbitrary: bd) (auto split: sum.splits)

lemma restore_roots_children:
  "restore_roots ts exported meshes detri = restore_children ts exported meshes detri"
  by (induction ts arbitrary: meshes) (auto split: prod.splits)

lemma prepare_total:
  "(\<forall>obj\<in>set (objs t). name obj \<in> set sel \<longrightarrow> M (name obj) \<noteq> None) \<Longrightarrow>
     \<exists>t' bd'. prepare_for_export dec t sel M tri bd = Inr (t', bd')"
  "(\<forall>obj\<in>set (concat (map objs cs)). name obj \<in> set sel \<longrightarrow> M (name obj) \<noteq> None) \<Longrightarrow>
     \<exists>cs' bd'. prepare_children dec cs sel M tri bd = Inr (cs', bd')"
proof (induction dec t sel M tri bd and dec cs sel M tri bd
    rule: prepare_for_export_prepare_children.induct)
  case (1 dec obj cs sel M tri bd)
  show ?case
  proof (cases "name obj \<in> set sel")
    case False
    then show ?thesis by simp
  next
    case True
    with "1.prems" obtain mx where mx: "M (name obj) = Some mx" by auto
    obtain obj' bd1 where po: "prepare_object dec mx tri obj bd = (obj', bd1)"
      by (cases "prepare_object dec mx tri obj bd")
    from "1.IH"[OF True mx po[symmetric]] "1.prems" obtain cs' bd' where
      "prepare_children dec cs sel M tri bd1 = Inr (cs', bd')" by auto
    then show ?thesis using True mx po by simp
  qed
next
  case (2 dec sel M tri bd)
  then show ?case by simp
next
  case (3 dec c cs sel M tri bd)
  show ?case
  proof (cases "name (root c) \<in> set sel")
    case True
    from "3.IH"(1)[OF True] "3.prems" obtain c' bd1 where
      pc: "prepare_for_export dec c sel M tri bd = Inr (c', bd1)" by auto
    from "3.IH"(2)[OF True pc refl] "3.prems" obtain cs' bd' where
      "prepare_children dec cs sel M tri bd1 = Inr (cs', bd')" by auto
    then show ?thesis using True pc by simp
  next
    case False
    from "3.IH"(3)[OF False] "3.prems" obtain cs' bd' where
      "prepare_children dec cs sel M tri bd = Inr (cs', bd')" by auto
    then show ?thesis using False by simp
  qed
qed

lemma prepare_preserves:
  "prepare_for_export dec t sel M tri bd = Inr (t', bd') \<Longrightarrow>
     map name (objs t') = map name (objs t) \<and> map visible (objs t') = map visible (objs t)"
  "prepare_children dec cs sel M tri bd = Inr (cs', bd') \<Longrightarrow>
     map name (concat (map objs cs')) = map name (concat (map objs cs)) \<and>
     map visible (concat (map objs cs')) = map visible (concat (map objs cs))"
proof (induction dec t sel M tri bd and dec cs sel M tri bd
    arbitrary: t' bd' and cs' bd'
    rule: prepare_for_export_prepare_children.induct)
  case (1 dec obj cs sel M tri bd)
  show ?case
  proof (cases "name obj \<in> set sel")
    case False
    with "1.prems"(1) show ?thesis by simp
  next
    case True
    from "1.prems"(1) True obtain mx obj' bd1 cs' where
      mx: "M (name obj) = Some mx" and
      po: "prepare_object dec mx tri obj bd = (obj', bd1)" and
      pc: "prepare_children dec cs sel M tri bd1 = Inr (cs', bd')" and t': "t' = Node obj' cs'"
      by (auto split: sum.splits option.splits prod.splits)
    have obj': "obj' = fst (prepare_object dec mx tri obj bd)" using po by simp
    show ?thesis using t' "1.IH"[OF True mx po[symmetric] pc]
      by (simp add: obj' prepare_object_name prepare_object_visible)
  qed
next
  case (2 dec sel M tri bd)
  then show ?case by simp
next
  case (3 dec c cs sel M tri bd)
  show ?case
  proof (cases "name (root c) \<in> set sel")
    case True
    from "3.prems"(1) True obtain c' bd1 cs1 where
      pc: "prepare_for_export dec c sel M tri bd = Inr (c', bd1)" and
      pcs: "prepare_children dec cs sel M tri bd1 = Inr (cs1, bd')" and
      cs': "cs' = c' # cs1"
      by (auto split: sum.splits)
    show ?thesis using "3.IH"(1)[OF True pc] "3.IH"(2)[OF True pc refl pcs] cs' by simp
  next
    case False
    from "3.prems"(1) False obtain cs1 where
      pcs: "prepare_children dec cs sel M tri bd = Inr (cs1, bd')" and
      cs': "cs' = c # cs1"
      by (auto split: sum.splits)
    show ?thesis using "3.IH"(3)[OF False pcs] cs' by simp
  qed
qed

lemma unflagged_replicate:
  "\<forall>obj\<in>set xs. \<not> unity_exported obj \<Longrightarrow> map unity_exported xs = replicate (length xs) False"
  by (induction xs) auto

lemma prepare_visited:
  "prepare_for_export dec t sel M tri bd = Inr (t', bd') \<Longrightarrow>
     (\<forall>obj\<in>set (objs t). \<not> unity_exported obj) \<Longrightarrow>
     map unity_exported (objs t') = visited sel t \<and>
     list_all2 (\<lambda>obj obj'. unity_exported obj' \<and> name obj \<in> set sel \<or> obj' = obj) (objs t) (objs t')"
  "prepare_children dec cs sel M tri bd = Inr (cs', bd') \<Longrightarrow>
     (\<forall>obj\<in>set (concat (map objs cs)). \<not> unity_exported obj) \<Longrightarrow>
     map unity_exported (concat (map objs cs')) = concat (map (visited sel) cs) \<and>
     list_all2 (\<lambda>obj obj'. unity_exported obj' \<and> name obj \<in> set sel \<or> obj' = obj)
       (concat (map objs cs)) (concat (map objs cs'))"
proof (induction dec t sel M tri bd and dec cs sel M tri bd
    arbitrary: t' bd' and cs' bd'
    rule: prepare_for_export_prepare_children.induct)
  case (1 dec obj cs sel M tri bd)
  show ?case
  proof (cases "name obj \<in> set sel")
    case False
    with "1.prems"(1) have t': "t' = Node obj cs" by simp
    have "map unity_exported (objs (Node obj cs)) = replicate (length (objs (Node obj cs))) False"
      using "1.prems"(2) by (rule unflagged_replicate)
    then show ?thesis using t' False
      by (simp add: list.rel_refl)
  next
    case True
    from "1.prems"(1) True obtain mx obj' bd1 cs' where
      mx: "M (name obj) = Some mx" and
      po: "prepare_object dec mx tri obj bd = (obj', bd1)" and
      pc: "prepare_children dec cs sel M tri bd1 = Inr (cs', bd')" and t': "t' = Node obj' cs'"
      by (auto split: sum.splits option.splits prod.splits)
    have obj': "obj' = fst (prepare_object dec mx tri obj bd)" using po by simp
    show ?thesis using t' "1.IH"[OF True mx po[symmetric] pc] "1.prems"(2) True
      by (simp add: obj' prepare_object_flag)
  qed
next
  case (2 dec sel M tri bd)
  then show ?case by simp
next
  case (3 dec c cs sel M tri bd)
  show ?case
  proof (cases "name (root c) \<in> set sel")
    case True
    from "3.prems"(1) True obtain c' bd1 cs1 where
      pc: "prepare_for_export dec c sel M tri bd = Inr (c', bd1)" and
      pcs: "prepare_children dec cs sel M tri bd1 = Inr (cs1, bd')" and
      cs': "cs' = c' # cs1"
      by (auto split: sum.splits)
    show ?thesis using "3.IH"(1)[OF True pc] "3.IH"(2)[OF True pc refl pcs] "3.prems"(2) cs'
      by (simp add: list_all2_appendI)
  next
    case False
    from "3.prems"(1) False obtain cs1 where
      pcs: "prepare_children dec cs sel M tri bd = Inr (cs1, bd')" and
      cs': "cs' = c # cs1"
      by (auto split: sum.splits)
    have v: "visited sel c = replicate (length (objs c)) False"
      using False by (cases c) simp
    have "map unity_exported (objs c) = replicate (length (objs c)) False"
      using "3.prems"(2) by (intro unflagged_replicate) simp
    then show ?thesis using "3.IH"(3)[OF False pcs] "3.prems"(2) cs' v
      by (simp add: list_all2_appendI list.rel_refl)
  qed
qed

text \<open>
  Claim C4, as the code has it: starting from objects none of which is flagged, export
  preparation flags exactly the objects that it visits, and it visits an object only when
  the object and every object above it, up to the object the preparation started at, is
  in the scope set; it recurses only into children that are in scope and does not
  descend through an out-of-scope object. Every object that is not visited, be it out of
  scope or in scope below an out-of-scope object, is left exactly as it was; in
  particular only objects in scope are changed.
\<close>

theorem prepare_visits_in_scope_chains:
  assumes "prepare_for_export decompose t sel matrices triangulate bd = Inr (t', bd')"
    and "\<forall>obj\<in>set (objs t). \<not> unity_exported obj"
  shows "map unity_exported (objs t') = visited sel t \<and>
     list_all2 (\<lambda>obj obj'. unity_exported obj' \<or> obj' = obj) (objs t) (objs t') \<and>
     list_all2 (\<lambda>obj obj'. name obj \<notin> set sel \<longrightarrow> obj' = obj) (objs t) (objs t')"
proof -
  note pv = prepare_visited(1)[OF assms]
  have "list_all2 (\<lambda>obj obj'. unity_exported obj' \<or> obj' = obj) (objs t) (objs t')"
    using pv by (auto elim: list_all2_mono)
  moreover have "list_all2 (\<lambda>obj obj'. name obj \<notin> set sel \<longrightarrow> obj' = obj) (objs t) (objs t')"
    using pv by (auto elim: list_all2_mono)
  ultimately show ?thesis using pv by simp
qed

lemma chain_scene_prepared:
  "prepare_for_export decompose_translation (hd (objects chain_scene)) [''A'', ''C'']
     [''A'' \<mapsto> Matrix_Identity, ''C'' \<mapsto> Matrix_Identity] False example_bdata =
   Inr (Node (fst (prepare_object decompose_translation Matrix_Identity False
                (example_object ''A'' EMPTY) example_bdata))
          [Node ((example_object ''B'' EMPTY)\<lparr>select := False\<rparr>)
              [Node (example_object ''C'' MESH) []]], example_bdata)"
  by (simp add: chain_scene_def example_object_def prepare_object_def Let_def case_prod_beta)

theorem prepare_visits_in_scope_chains_witness:
  "map unity_exported (objs (hd (objects chain_scene))) = [False, False, False] \<and>
   map unity_exported (objs (Node (fst (prepare_object decompose_translation Matrix_Identity False
                (example_object ''A'' EMPTY) example_bdata))
          [Node ((example_object ''B'' EMPTY)\<lparr>select := False\<rparr>)
              [Node (example_object ''C'' MESH) []]])) = [True, False, False]"
proof -
  have h: "\<forall>obj\<in>set (objs (hd (objects chain_scene))). \<not> unity_exported obj"
    by (simp add: chain_scene_def example_object_def)
  show ?thesis
    using prepare_visits_in_scope_chains[OF chain_scene_prepared h]
    by (simp add: chain_scene_def example_object_def)
qed

text \<open>
  With \<open>A\<close> and \<open>C\<close> selected and \<open>B\<close> not, the operator prepares \<open>A\<close> only:
  \<open>C\<close> is in scope, below the out-of-scope \<open>B\<close>, and it is not visited.
\<close>

theorem in_scope_below_out_of_scope_not_prepared:
  "(case PrepareExport_invoke decompose_translation \<lparr>alt = True, ctrl = False\<rparr> chain_scene of
      Inr (st, sc') \<Rightarrow> map (\<lambda>obj. (name obj, unity_exported obj)) (all_objects (objects sc'))
    | Inl e \<Rightarrow> []) = [(''A'', True), (''B'', False), (''C'', False)]"
  by (simp add: PrepareExport_invoke_def chain_scene_def example_object_def
      selected_objects_def visible_objects_def all_objects_def prepare_object_def Let_def
      case_prod_beta)

lemma select_visible_objs:
  "objs (select_visible t) = map (\<lambda>obj. if visible obj then obj\<lparr>select := True\<rparr> else obj) (objs t)"
  by (induction t) (simp add: map_concat comp_def cong: map_cong)

lemma all_objects_select_visible:
  "all_objects (map select_visible ts) =
     map (\<lambda>obj. if visible obj then obj\<lparr>select := True\<rparr> else obj) (all_objects ts)"
  by (simp add: all_objects_def map_concat comp_def select_visible_objs)

lemma same_name_same_object:
  "distinct (map name xs) \<Longrightarrow> x \<in> set xs \<Longrightarrow> y \<in> set xs \<Longrightarrow> name x = name y \<Longrightarrow> x = y"
  by (auto simp add: distinct_map dest: inj_onD)

lemma matrices_lookup:
  assumes "distinct (map name xs)" and "obj \<in> set xs"
  shows "map_of (rev (map (\<lambda>obj. (name obj, matrix_world obj)) xs)) (name obj) = Some (matrix_world obj)"
proof -
  have "distinct (map fst (rev (map (\<lambda>obj. (name obj, matrix_world obj)) xs)))"
    using assms(1) by (simp add: rev_map[symmetric] comp_def)
  moreover have "(name obj, matrix_world obj) \<in> set (rev (map (\<lambda>obj. (name obj, matrix_world obj)) xs))"
    using assms(2) by auto
  ultimately show ?thesis by (rule map_of_is_SomeI)
qed

lemma in_filter_by_name:
  assumes "distinct (map name xs)" and "obj \<in> set xs" and "name obj \<in> set (map name (filter P xs))"
  shows "P obj"
proof -
  from assms(3) obtain o2 where o2: "o2 \<in> set xs" "P o2" "name o2 = name obj" by auto
  with same_name_same_object[OF assms(1) o2(1) assms(2)] show ?thesis by simp
qed

lemma prepare_then_restore_forest:
  assumes dist: "distinct (map name (all_objects ts))"
    and poll: "filter unity_exported (visible_objects ts) = []"
  shows "\<exists>ts' bd'.
     prepare_roots dec ts (map name (selected_objects ts))
       (map_of (rev (map (\<lambda>obj. (name obj, matrix_world obj)) (selected_objects ts)))) tri bd
       = Inr (ts', bd') \<and>
     list_all2 export_state_restored (all_objects ts)
       (all_objects (fst (restore_roots ts'
          (map name (filter unity_exported (visible_objects ts'))) [] detri)))"
proof -
  let ?sel = "selected_objects ts"
  let ?M = "map_of (rev (map (\<lambda>obj. (name obj, matrix_world obj)) ?sel))"
  have dsel: "distinct (map name ?sel)"
    using dist by (simp add: selected_objects_def visible_objects_def distinct_map_filter)
  have H1: "\<forall>obj\<in>set (concat (map objs ts)). visible obj \<longrightarrow> \<not> unity_exported obj"
    using poll by (auto simp add: visible_objects_def all_objects_def filter_empty_conv)
  have H23: "\<forall>obj\<in>set (concat (map objs ts)). name obj \<in> set (map name ?sel) \<longrightarrow>
      visible obj \<and> ?M (name obj) = Some (matrix_world obj)"
  proof (intro ballI impI)
    fix obj assume a: "obj \<in> set (concat (map objs ts))" "name obj \<in> set (map name ?sel)"
    have a1: "obj \<in> set (all_objects ts)" using a(1) by (simp add: all_objects_def)
    have "name obj \<in> set (map name (filter (\<lambda>obj. visible obj \<and> select obj) (all_objects ts)))"
      using a(2) by (simp add: selected_objects_def visible_objects_def conj_commute)
    from in_filter_by_name[OF dist a1 this] have vs: "visible obj \<and> select obj" .
    then have "obj \<in> set ?sel" using a1 by (simp add: selected_objects_def visible_objects_def)
    from matrices_lookup[OF dsel this] vs
    show "visible obj \<and> ?M (name obj) = Some (matrix_world obj)" by simp
  qed
  have "\<forall>obj\<in>set (concat (map objs ts)). name obj \<in> set (map name ?sel) \<longrightarrow> ?M (name obj) \<noteq> None"
  proof (intro ballI impI)
    fix obj assume "obj \<in> set (concat (map objs ts))" "name obj \<in> set (map name ?sel)"
    with H23 have "?M (name obj) = Some (matrix_world obj)" by blast
    then show "?M (name obj) \<noteq> None" by simp
  qed
  from prepare_total(2)[OF this] obtain ts' bd' where
    pc: "prepare_children dec ts (map name ?sel) ?M tri bd = Inr (ts', bd')" by blast
  from prepare_preserves(2)[OF pc] have
    names: "map name (all_objects ts') = map name (all_objects ts)"
    by (simp add: all_objects_def)
  let ?exported = "map name (filter unity_exported (visible_objects ts'))"
  have H4: "\<forall>obj\<in>set (concat (map objs ts')).
      (name obj \<in> set ?exported) = (visible obj \<and> unity_exported obj)"
  proof
    fix obj assume a: "obj \<in> set (concat (map objs ts'))"
    have a1: "obj \<in> set (all_objects ts')" using a by (simp add: all_objects_def)
    have d': "distinct (map name (all_objects ts'))" using dist names by simp
    show "(name obj \<in> set ?exported) = (visible obj \<and> unity_exported obj)"
    proof
      assume "name obj \<in> set ?exported"
      then have "name obj \<in> set (map name (filter (\<lambda>obj. visible obj \<and> unity_exported obj) (all_objects ts')))"
        by (simp add: visible_objects_def conj_commute)
      from in_filter_by_name[OF d' a1 this] show "visible obj \<and> unity_exported obj" .
    next
      assume "visible obj \<and> unity_exported obj"
      then show "name obj \<in> set ?exported" using a1 by (auto simp add: visible_objects_def)
    qed
  qed
  have "list_all2 export_state_restored (concat (map objs ts))
       (concat (map objs (fst (restore_children ts' ?exported [] detri))))"
    by (rule roundtrip_trees(2)[OF pc H1 H23 H4])
  then show ?thesis using pc
    by (simp add: prepare_roots_children restore_roots_children all_objects_def)
qed


lemma export_state_restored_after_select:
  assumes "list_all2 export_state_restored
      (map (\<lambda>obj. if visible obj then obj\<lparr>select := True\<rparr> else obj) xs) ys"
  shows "list_all2 export_state_restored xs ys"
proof -
  have "list_all2 (\<lambda>obj obj'. export_state_restored
      (if visible obj then obj\<lparr>select := True\<rparr> else obj) obj') xs ys"
    using assms by (simp add: list_all2_map1)
  then show ?thesis
    by (rule list_all2_mono) (simp add: export_state_restored_def split: if_splits)
qed

text \<open>
  Claim C1: in a scene whose objects have distinct names and in which the prepare
  operator may run (no visible object is flagged), the prepare operator succeeds, and
  running the restore operator after it reproduces, for every object of the scene, the
  state before the preparation: the world matrix is the one that was saved, the MIRROR
  modifiers and the BEVEL modifiers are the ones the object had, with the same axis flags
  and the same widths, and the mesh data block is the same reference. The widths are equal
  as real numbers, to which the floats are idealised.
\<close>

theorem restore_after_prepare_reproduces_state:
  assumes "distinct (map name (all_objects (objects sc)))"
    and "PrepareExport_poll sc"
  shows "\<exists>sc'. PrepareExport_invoke decompose ev sc = Inr (FINISHED, sc') \<and>
     list_all2 export_state_restored (all_objects (objects sc))
       (all_objects (objects (snd (RestoreExport_execute sc'))))"
proof -
  let ?g = "\<lambda>obj. if visible obj then obj\<lparr>select := True\<rparr> else obj"
  let ?ts = "if selected_objects (objects sc) = []
             then map select_visible (objects sc) else objects sc"
  have nm: "map name (all_objects ?ts) = map name (all_objects (objects sc))"
    by (simp add: all_objects_select_visible comp_def if_distrib cong: if_cong)
  have dist: "distinct (map name (all_objects ?ts))"
    using assms(1) by (simp only: nm)
  have poll: "filter unity_exported (visible_objects ?ts) = []"
    using assms(2)
    by (auto simp add: PrepareExport_poll_def visible_objects_def all_objects_select_visible
        filter_empty_conv)
  from prepare_then_restore_forest[OF dist poll, of decompose "unity_triangulate sc" "bpy_data sc"
      "unity_triangulate sc"]
  obtain ts' bd' where
    pr: "prepare_roots decompose ?ts (map name (selected_objects ?ts))
       (map_of (rev (map (\<lambda>obj. (name obj, matrix_world obj)) (selected_objects ?ts))))
       (unity_triangulate sc) (bpy_data sc) = Inr (ts', bd')" and
    rt: "list_all2 export_state_restored (all_objects ?ts)
       (all_objects (fst (restore_roots ts'
          (map name (filter unity_exported (visible_objects ts'))) [] (unity_triangulate sc))))"
    by blast
  let ?sc' = "sc\<lparr>objects := ts', bpy_data := bd',
      fbx_exports := (if \<not> alt ev then Suc (fbx_exports sc) else fbx_exports sc)\<rparr>"
  have inv: "PrepareExport_invoke decompose ev sc = Inr (FINISHED, ?sc')"
    using pr unfolding PrepareExport_invoke_def Let_def by simp
  have "list_all2 export_state_restored (all_objects (objects sc))
       (all_objects (fst (restore_roots ts'
          (map name (filter unity_exported (visible_objects ts'))) [] (unity_triangulate sc))))"
  proof (cases "selected_objects (objects sc) = []")
    case True
    with rt show ?thesis
      by (simp add: all_objects_select_visible export_state_restored_after_select)
  next
    case False
    with rt show ?thesis by simp
  qed
  then have "list_all2 export_state_restored (all_objects (objects sc))
       (all_objects (objects (snd (RestoreExport_execute ?sc'))))"
    by (simp add: RestoreExport_execute_def Let_def case_prod_beta)
  with inv show ?thesis by blast
qed

theorem restore_after_prepare_reproduces_state_witness:
  "distinct (map name (all_objects (objects export_example_scene))) \<and>
   PrepareExport_poll export_example_scene \<and>
   (\<exists>sc'. PrepareExport_invoke decompose_translation \<lparr>alt = False, ctrl = False\<rparr> export_example_scene
            = Inr (FINISHED, sc') \<and>
      list_all2 export_state_restored (all_objects (objects export_example_scene))
        (all_objects (objects (snd (RestoreExport_execute sc')))))"
proof -
  have d: "distinct (map name (all_objects (objects export_example_scene)))"
    by (simp add: export_example_scene_def all_objects_def mirrored_cube_def example_object_def)
  have p: "PrepareExport_poll export_example_scene"
    by (simp add: PrepareExport_poll_def export_example_scene_def visible_objects_def
        all_objects_def mirrored_cube_def example_object_def)
  show ?thesis
    using d p restore_after_prepare_reproduces_state[OF d p, of decompose_translation "\<lparr>alt = False, ctrl = False\<rparr>"]
    by simp
qed

lemma restore_exported_root:
  "name (root t) \<in> set exported \<Longrightarrow>
   root (fst (restore_exported t exported meshes detri)) =
     fst (restore_object detri (root t) meshes)"
  by (cases t) (simp add: case_prod_beta)

text \<open>
  Claim C6, as the code has it: a visit of export preparation appends exactly one
  triangulation modifier to the object when triangulation is requested and the object is
  a mesh, and none otherwise. A visit of the restoration with detriangulation requested
  removes the last modifier of the object exactly when that modifier has the
  triangulation type. After a preparation that appended one, this removes the appended
  modifier and the sequence is the one before the preparation; after a preparation that
  appended none, a triangulation modifier that was the last of the object's own is
  removed all the same.
\<close>

theorem triangulate_added_once_removed_by_type:
  assumes "prepare_for_export decompose (Node obj cs) sel matrices triangulate bd = Inr (t', bd')"
    and "name obj \<in> set sel"
    and "name obj \<in> set exported"
  shows "modifiers (root t') =
       adjust_bevels (\<lambda>w. w * 100) (adjust_mirrors (modifiers obj)) @
       (if triangulate \<and> type obj = MESH then [new_triangulate] else []) \<and>
     modifiers (root (fst (restore_exported t' exported meshes detriangulate))) =
       (let ms = modifiers obj @ (if triangulate \<and> type obj = MESH then [new_triangulate] else [])
        in if detriangulate \<and> ms \<noteq> [] \<and> is_triangulate (last ms) then butlast ms else ms)"
proof -
  from prepare_for_export_root[OF assms(1,2)] obtain mx where
    r: "root t' = fst (prepare_object decompose mx triangulate obj bd)" by blast
  have n: "name (root t') \<in> set exported"
    using r assms(3) by (simp only: prepare_object_name)
  show ?thesis
    by (simp only: restore_exported_root[OF n] r prepare_object_modifiers
        restore_prepare_modifiers simp_thms)
qed

lemma triangulated_mesh_prepared:
  "prepare_for_export decompose_translation (Node triangulated_mesh []) [''Mesh'']
     [''Mesh'' \<mapsto> Matrix_Identity] True example_bdata
   = Inr (Node (fst (prepare_object decompose_translation Matrix_Identity True triangulated_mesh example_bdata)) [],
          snd (prepare_object decompose_translation Matrix_Identity True triangulated_mesh example_bdata))"
  by (simp add: triangulated_mesh_def example_object_def case_prod_beta)

theorem triangulate_added_once_removed_by_type_witness:
  "map mod_name (modifiers (fst (prepare_object decompose_translation Matrix_Identity True
       triangulated_mesh example_bdata))) = [''Own Triangulate'', ''Triangulate''] \<and>
   map mod_name (modifiers (root (fst (restore_exported
     (Node (fst (prepare_object decompose_translation Matrix_Identity True triangulated_mesh example_bdata)) [])
     [''Mesh''] [] True)))) = [''Own Triangulate'']"
  using triangulate_added_once_removed_by_type[OF triangulated_mesh_prepared, of "[''Mesh'']" "[]" True]
  by (simp add: triangulated_mesh_def example_object_def own_triangulate_def new_triangulate_def
      adjust_bevels_def adjust_mirrors_def)

text \<open>
  A mesh whose only modifier is a triangulation modifier of its own is prepared without
  triangulation, so that nothing is appended, and restored with detriangulation: the
  restoration removes the object's own modifier.
\<close>

theorem restore_removes_modifier_not_added:
  "(case prepare_for_export decompose_translation (Node triangulated_mesh []) [''Mesh'']
          [''Mesh'' \<mapsto> Matrix_Identity] False example_bdata of
      Inr (t', bd') \<Rightarrow>
        (map mod_name (modifiers (root t')),
         map mod_name (modifiers (root (fst (restore_exported t' [''Mesh''] [] True)))))
    | Inl e \<Rightarrow> ([], [''error''])) = ([''Own Triangulate''], [])"
  by (simp add: triangulated_mesh_def example_object_def own_triangulate_def
      prepare_object_def restore_object_def decompose_translation_def Matrix_Identity_def
      mesh_copy_def adjust_mirrors_def adjust_bevels_def Let_def)


lemma prepare_object_invariant:
  "M (name obj) = Some mx \<Longrightarrow> export_invariant M (fst (prepare_object dec mx tri obj bd))"
  by (simp add: export_invariant_def prepare_object_name prepare_object_saved matrix_of_flat_flatten)

lemma restore_object_cleared: "annotation_cleared (fst (restore_object detri obj meshes))"
  by (simp add: annotation_cleared_def restore_object_flag restore_object_saved)

lemma prepare_annotates:
  "prepare_for_export dec t sel M tri bd = Inr (t', bd') \<Longrightarrow>
     list_all2 (\<lambda>obj obj'. obj' = obj \<or> export_invariant M obj') (objs t) (objs t')"
  "prepare_children dec cs sel M tri bd = Inr (cs', bd') \<Longrightarrow>
     list_all2 (\<lambda>obj obj'. obj' = obj \<or> export_invariant M obj')
       (concat (map objs cs)) (concat (map objs cs'))"
proof (induction dec t sel M tri bd and dec cs sel M tri bd
    arbitrary: t' bd' and cs' bd'
    rule: prepare_for_export_prepare_children.induct)
  case (1 dec obj cs sel M tri bd)
  show ?case
  proof (cases "name obj \<in> set sel")
    case False
    with "1.prems"(1) show ?thesis by (simp add: list.rel_refl)
  next
    case True
    from "1.prems"(1) True obtain mx obj' bd1 cs' where
      mx: "M (name obj) = Some mx" and
      po: "prepare_object dec mx tri obj bd = (obj', bd1)" and
      pc: "prepare_children dec cs sel M tri bd1 = Inr (cs', bd')" and t': "t' = Node obj' cs'"
      by (auto split: sum.splits option.splits prod.splits)
    have obj': "obj' = fst (prepare_object dec mx tri obj bd)" using po by simp
    have "export_invariant M (fst (prepare_object dec mx tri obj bd))"
      using mx by (rule prepare_object_invariant)
    then show ?thesis using t' "1.IH"[OF True mx po[symmetric] pc]
      by (simp add: obj')
  qed
next
  case (2 dec sel M tri bd)
  then show ?case by simp
next
  case (3 dec c cs sel M tri bd)
  show ?case
  proof (cases "name (root c) \<in> set sel")
    case True
    from "3.prems"(1) True obtain c' bd1 cs1 where
      pc: "prepare_for_export dec c sel M tri bd = Inr (c', bd1)" and
      pcs: "prepare_children dec cs sel M tri bd1 = Inr (cs1, bd')" and
      cs': "cs' = c' # cs1"
      by (auto split: sum.splits)
    show ?thesis using "3.IH"(1)[OF True pc] "3.IH"(2)[OF True pc refl pcs] cs'
      by (simp add: list_all2_appendI)
  next
    case False
    from "3.prems"(1) False obtain cs1 where
      pcs: "prepare_children dec cs sel M tri bd = Inr (cs1, bd')" and
      cs': "cs' = c # cs1"
      by (auto split: sum.splits)
    show ?thesis using "3.IH"(3)[OF False pcs] cs'
      by (simp add: list_all2_appendI list.rel_refl)
  qed
qed

lemma restore_clears:
  "list_all2 (\<lambda>obj obj'. obj' = obj \<or> annotation_cleared obj')
     (objs t) (objs (fst (restore_exported t exported meshes detri)))"
  "list_all2 (\<lambda>obj obj'. obj' = obj \<or> annotation_cleared obj')
     (concat (map objs cs)) (concat (map objs (fst (restore_children cs exported meshes detri))))"
proof (induction t exported meshes detri and cs exported meshes detri
    rule: restore_exported_restore_children.induct)
  case (1 obj cs exported meshes detri)
  show ?case
  proof (cases "name obj \<in> set exported")
    case False
    then show ?thesis by (simp add: list.rel_refl)
  next
    case True
    obtain obj' m1 where ro: "restore_object detri obj meshes = (obj', m1)"
      by (cases "restore_object detri obj meshes")
    have "annotation_cleared obj'"
      using restore_object_cleared[of detri obj meshes] ro by simp
    then show ?thesis using True ro "1.IH"[OF True ro[symmetric]]
      by (simp add: case_prod_beta)
  qed
next
  case (2 exported meshes detri)
  then show ?case by simp
next
  case (3 c cs exported meshes detri)
  show ?case
  proof (cases "name (root c) \<in> set exported")
    case True
    obtain c' m1 where rc: "restore_exported c exported meshes detri = (c', m1)"
      by (cases "restore_exported c exported meshes detri")
    show ?thesis using True rc "3.IH"(1)[OF True] "3.IH"(2)[OF True rc[symmetric]]
      by (simp add: case_prod_beta list_all2_appendI)
  next
    case False
    then show ?thesis using "3.IH"(3)[OF False]
      by (simp add: case_prod_beta list_all2_appendI list.rel_refl)
  qed
qed

lemma list_all2_keeps:
  "list_all2 (\<lambda>x y. y = x \<or> Q y) xs ys \<Longrightarrow> \<forall>x\<in>set xs. Q x \<Longrightarrow> \<forall>y\<in>set ys. Q y"
  by (induction xs ys rule: list_all2_induct) auto

lemma cleared_invariant: "annotation_cleared obj \<Longrightarrow> export_invariant pre obj"
  by (simp add: annotation_cleared_def export_invariant_def)

lemma length_visited: "length (visited sel t) = length (objs t)"
proof (induction t)
  case (Node obj cs)
  have "sum_list (map (length \<circ> visited sel) cs) = sum_list (map (length \<circ> objs) cs)"
    using Node.IH by (simp cong: map_cong)
  then show ?case by (simp add: length_concat)
qed

lemma length_visited_children:
  "length (concat (map (visited sel) cs)) = length (concat (map objs cs))"
  by (induction cs) (simp_all add: length_visited)

lemma zip_unvisited:
  "list_all2 (\<lambda>(obj, v) obj'. if v then A obj obj' else obj' = obj)
     (zip xs (replicate (length xs) False)) xs"
  by (induction xs) simp_all

lemma zip_visited_append:
  assumes "list_all2 (\<lambda>(obj, v) obj'. if v then A obj obj' else obj' = obj)
      (zip (objs c) (visited sel c)) ys"
    and "list_all2 (\<lambda>(obj, v) obj'. if v then A obj obj' else obj' = obj)
      (zip (concat (map objs cs)) (concat (map (visited sel) cs))) zs"
  shows "list_all2 (\<lambda>(obj, v) obj'. if v then A obj obj' else obj' = obj)
      (zip (objs c @ concat (map objs cs)) (visited sel c @ concat (map (visited sel) cs)))
      (ys @ zs)"
  using assms by (simp add: zip_append length_visited list_all2_appendI)

lemma visited_out_of_scope:
  "name (root c) \<notin> set sel \<Longrightarrow> visited sel c = replicate (length (objs c)) False"
  by (cases c) simp

lemma prepare_saves_on_visit:
  "prepare_for_export dec t sel M tri bd = Inr (t', bd') \<Longrightarrow>
     list_all2 (\<lambda>(obj, v) obj'.
         if v then unity_exported obj' \<and>
                   M (name obj) = Some (matrix_of_flat (pre_unity_export_mx obj'))
         else obj' = obj)
       (zip (objs t) (visited sel t)) (objs t')"
  "prepare_children dec cs sel M tri bd = Inr (cs', bd') \<Longrightarrow>
     list_all2 (\<lambda>(obj, v) obj'.
         if v then unity_exported obj' \<and>
                   M (name obj) = Some (matrix_of_flat (pre_unity_export_mx obj'))
         else obj' = obj)
       (zip (concat (map objs cs)) (concat (map (visited sel) cs))) (concat (map objs cs'))"
proof (induction dec t sel M tri bd and dec cs sel M tri bd
    arbitrary: t' bd' and cs' bd'
    rule: prepare_for_export_prepare_children.induct)
  case (1 dec obj cs sel M tri bd)
  show ?case
  proof (cases "name obj \<in> set sel")
    case False
    with "1.prems"(1) have t': "t' = Node obj cs" by simp
    have "visited sel (Node obj cs) = replicate (length (objs (Node obj cs))) False"
      using False by simp
    then show ?thesis unfolding t' by (simp only: zip_unvisited)
  next
    case True
    from "1.prems"(1) True obtain mx obj' bd1 cs' where
      mx: "M (name obj) = Some mx" and
      po: "prepare_object dec mx tri obj bd = (obj', bd1)" and
      pc: "prepare_children dec cs sel M tri bd1 = Inr (cs', bd')" and t': "t' = Node obj' cs'"
      by (auto split: sum.splits option.splits prod.splits)
    have obj': "obj' = fst (prepare_object dec mx tri obj bd)" using po by simp
    show ?thesis using t' "1.IH"[OF True mx po[symmetric] pc] True mx
      by (simp add: obj' prepare_object_flag prepare_object_saved matrix_of_flat_flatten)
  qed
next
  case (2 dec sel M tri bd)
  then show ?case by simp
next
  case (3 dec c cs sel M tri bd)
  show ?case
  proof (cases "name (root c) \<in> set sel")
    case True
    from "3.prems"(1) True obtain c' bd1 cs1 where
      pc: "prepare_for_export dec c sel M tri bd = Inr (c', bd1)" and
      pcs: "prepare_children dec cs sel M tri bd1 = Inr (cs1, bd')" and
      cs': "cs' = c' # cs1"
      by (auto split: sum.splits)
    show ?thesis unfolding cs'
      by (simp only: list.map concat.simps) (rule zip_visited_append[OF "3.IH"(1)[OF True pc] "3.IH"(2)[OF True pc refl pcs]])
  next
    case False
    from "3.prems"(1) False obtain cs1 where
      pcs: "prepare_children dec cs sel M tri bd = Inr (cs1, bd')" and
      cs': "cs' = c # cs1"
      by (auto split: sum.splits)
    have c: "list_all2 (\<lambda>(obj, v) obj'.
         if v then unity_exported obj' \<and>
                   M (name obj) = Some (matrix_of_flat (pre_unity_export_mx obj'))
         else obj' = obj) (zip (objs c) (visited sel c)) (objs c)"
      by (simp only: visited_out_of_scope[OF False] zip_unvisited)
    show ?thesis unfolding cs'
      by (simp only: list.map concat.simps) (rule zip_visited_append[OF c "3.IH"(3)[OF False pcs]])
  qed
qed

lemma restore_clears_on_visit:
  "list_all2 (\<lambda>(obj, v) obj'. if v then annotation_cleared obj' else obj' = obj)
     (zip (objs t) (visited exported t)) (objs (fst (restore_exported t exported meshes detri)))"
  "list_all2 (\<lambda>(obj, v) obj'. if v then annotation_cleared obj' else obj' = obj)
     (zip (concat (map objs cs)) (concat (map (visited exported) cs)))
     (concat (map objs (fst (restore_children cs exported meshes detri))))"
proof (induction t exported meshes detri and cs exported meshes detri
    rule: restore_exported_restore_children.induct)
  case (1 obj cs exported meshes detri)
  show ?case
  proof (cases "name obj \<in> set exported")
    case False
    have "visited exported (Node obj cs) = replicate (length (objs (Node obj cs))) False"
      using False by simp
    moreover have "fst (restore_exported (Node obj cs) exported meshes detri) = Node obj cs"
      using False by simp
    ultimately show ?thesis by (simp only: zip_unvisited)
  next
    case True
    obtain obj' m1 where ro: "restore_object detri obj meshes = (obj', m1)"
      by (cases "restore_object detri obj meshes")
    have "annotation_cleared obj'"
      using restore_object_cleared[of detri obj meshes] ro by simp
    then show ?thesis using True ro "1.IH"[OF True ro[symmetric]]
      by (simp add: case_prod_beta)
  qed
next
  case (2 exported meshes detri)
  then show ?case by simp
next
  case (3 c cs exported meshes detri)
  show ?case
  proof (cases "name (root c) \<in> set exported")
    case True
    obtain c' m1 where rc: "restore_exported c exported meshes detri = (c', m1)"
      by (cases "restore_exported c exported meshes detri")
    have r: "fst (restore_children (c # cs) exported meshes detri) =
        c' # fst (restore_children cs exported m1 detri)"
      using True rc by (simp add: case_prod_beta)
    have a: "list_all2 (\<lambda>(obj, v) obj'. if v then annotation_cleared obj' else obj' = obj)
        (zip (objs c) (visited exported c)) (objs c')"
      using "3.IH"(1)[OF True] rc by simp
    show ?thesis unfolding r
      by (simp only: list.map concat.simps) (rule zip_visited_append[OF a "3.IH"(2)[OF True rc[symmetric]]])
  next
    case False
    have r: "fst (restore_children (c # cs) exported meshes detri) =
        c # fst (restore_children cs exported meshes detri)"
      using False by (simp add: case_prod_beta)
    have a: "list_all2 (\<lambda>(obj, v) obj'. if v then annotation_cleared obj' else obj' = obj)
        (zip (objs c) (visited exported c)) (objs c)"
      by (simp only: visited_out_of_scope[OF False] zip_unvisited)
    show ?thesis unfolding r
      by (simp only: list.map concat.simps) (rule zip_visited_append[OF a "3.IH"(3)[OF False]])
  qed
qed

text \<open>
  When the dictionary has no entry for an object of \<open>sel\<close>, the source raises in the
  line after the one that sets the flag, so that the object is left flagged without a
  saved matrix. The operator never gets there: it builds the dictionary from \<open>sel\<close>.
\<close>

lemma prepare_raises_after_flag:
  "name obj \<in> set sel \<Longrightarrow> matrices (name obj) = None \<Longrightarrow>
   prepare_for_export decompose (Node obj cs) sel matrices triangulate bd =
     Inl (KeyError, Node (obj\<lparr>unity_exported := True\<rparr>) cs, bd)"
  by simp

text \<open>
  Claim C9: the invariant of the export annotation is kept by the preparation and by the
  restoration. Let every object that is flagged carry the saved copy of its pre-export
  matrix, and let the dictionary have an entry for every object in scope, as the
  operator builds it. Then \<open>prepare_for_export\<close> returns, the invariant holds of every
  object afterwards, and every object that the preparation visits is flagged and carries
  the saved copy of its entry of the dictionary, while every other object is as it was.
  After \<open>restore_exported\<close> the invariant holds of every object as well, and every
  object that the restoration visits has its flag and its saved matrix cleared together,
  so that the flag is never left set without the saved matrix; every other object is as
  it was.
\<close>

theorem export_invariant_preserved:
  assumes "\<forall>obj\<in>set (objs t). export_invariant matrices obj"
    and "\<forall>obj\<in>set (objs t). name obj \<in> set sel \<longrightarrow> matrices (name obj) \<noteq> None"
  shows "(\<exists>t' bd'. prepare_for_export decompose t sel matrices triangulate bd = Inr (t', bd') \<and>
        (\<forall>obj\<in>set (objs t'). export_invariant matrices obj) \<and>
        list_all2 (\<lambda>(obj, v) obj'.
            if v then unity_exported obj' \<and>
                      matrices (name obj) = Some (matrix_of_flat (pre_unity_export_mx obj'))
            else obj' = obj)
          (zip (objs t) (visited sel t)) (objs t')) \<and>
     (\<forall>obj\<in>set (objs (fst (restore_exported t exported meshes detriangulate))).
        export_invariant matrices obj) \<and>
     list_all2 (\<lambda>(obj, v) obj'. if v then annotation_cleared obj' else obj' = obj)
       (zip (objs t) (visited exported t))
       (objs (fst (restore_exported t exported meshes detriangulate)))"
proof (intro conjI)
  from prepare_total(1)[OF assms(2)] obtain t' bd' where
    p: "prepare_for_export decompose t sel matrices triangulate bd = Inr (t', bd')" by blast
  have "\<forall>obj\<in>set (objs t'). export_invariant matrices obj"
    by (rule list_all2_keeps[OF prepare_annotates(1)[OF p] assms(1)])
  with p prepare_saves_on_visit(1)[OF p]
  show "\<exists>t' bd'. prepare_for_export decompose t sel matrices triangulate bd = Inr (t', bd') \<and>
        (\<forall>obj\<in>set (objs t'). export_invariant matrices obj) \<and>
        list_all2 (\<lambda>(obj, v) obj'.
            if v then unity_exported obj' \<and>
                      matrices (name obj) = Some (matrix_of_flat (pre_unity_export_mx obj'))
            else obj' = obj)
          (zip (objs t) (visited sel t)) (objs t')"
    by blast
  have "list_all2 (\<lambda>obj obj'. obj' = obj \<or> annotation_cleared obj')
       (objs t) (objs (fst (restore_exported t exported meshes detriangulate)))"
    by (rule restore_clears(1))
  then have "list_all2 (\<lambda>obj obj'. obj' = obj \<or> export_invariant matrices obj')
       (objs t) (objs (fst (restore_exported t exported meshes detriangulate)))"
    by (rule list_all2_mono) (auto simp add: cleared_invariant)
  from list_all2_keeps[OF this assms(1)]
  show "\<forall>obj\<in>set (objs (fst (restore_exported t exported meshes detriangulate))).
        export_invariant matrices obj" .
  show "list_all2 (\<lambda>(obj, v) obj'. if v then annotation_cleared obj' else obj' = obj)
       (zip (objs t) (visited exported t))
       (objs (fst (restore_exported t exported meshes detriangulate)))"
    by (rule restore_clears_on_visit(1))
qed

theorem export_invariant_preserved_witness:
  "prepare_for_export decompose_translation (Node moved_empty []) [''Empty'']
     [''Empty'' \<mapsto> get_loc_matrix (1, 2, 3)] False example_bdata
     = Inr (Node prepared_empty [], example_bdata) \<and>
   (unity_exported prepared_empty, matrix_of_flat (pre_unity_export_mx prepared_empty))
     = (True, get_loc_matrix (1, 2, 3)) \<and>
   map (\<lambda>obj. (unity_exported obj, pre_unity_export_mx obj))
     (objs (fst (restore_exported (Node prepared_empty []) [''Empty''] [] False)))
     = [(False, flatten_matrix Matrix_Identity)]"
proof -
  have n: "name prepared_empty = ''Empty''"
    by (simp add: prepared_empty_def prepare_object_name moved_empty_def example_object_def)
  have s: "matrix_of_flat (pre_unity_export_mx prepared_empty) = get_loc_matrix (1, 2, 3)"
    by (simp only: prepared_empty_def prepare_object_saved matrix_of_flat_flatten)
  have f: "unity_exported prepared_empty"
    by (simp only: prepared_empty_def prepare_object_flag)
  have h2: "\<forall>obj\<in>set (objs (Node prepared_empty [])).
      export_invariant [''Empty'' \<mapsto> get_loc_matrix (1, 2, 3)] obj"
    using n s by (simp add: export_invariant_def del: get_loc_matrix.simps)
  have k2: "\<forall>obj\<in>set (objs (Node prepared_empty [])). name obj \<in> set [''Empty''] \<longrightarrow>
      [''Empty'' \<mapsto> get_loc_matrix (1, 2, 3)] (name obj) \<noteq> None"
    using n by simp
  have p: "prepare_for_export decompose_translation (Node moved_empty []) [''Empty'']
     [''Empty'' \<mapsto> get_loc_matrix (1, 2, 3)] False example_bdata
     = Inr (Node prepared_empty [], example_bdata)"
    by (simp add: prepared_empty_def moved_empty_def example_object_def prepare_object_def
        Let_def case_prod_beta)
  have v: "visited [''Empty''] (Node prepared_empty []) = [True]"
    using n by simp
  from export_invariant_preserved[OF h2 k2, of decompose_translation False example_bdata
      "[''Empty'']" "[]" False]
  have "list_all2 (\<lambda>(obj, v) obj'. if v then annotation_cleared obj' else obj' = obj)
       (zip (objs (Node prepared_empty [])) (visited [''Empty''] (Node prepared_empty [])))
       (objs (fst (restore_exported (Node prepared_empty []) [''Empty''] [] False)))"
    by blast
  then obtain obj' where
    "objs (fst (restore_exported (Node prepared_empty []) [''Empty''] [] False)) = [obj']"
    and "annotation_cleared obj'"
    unfolding v by (auto simp add: list_all2_Cons1)
  then have r: "map (\<lambda>obj. (unity_exported obj, pre_unity_export_mx obj))
     (objs (fst (restore_exported (Node prepared_empty []) [''Empty''] [] False)))
     = [(False, flatten_matrix Matrix_Identity)]"
    by (simp add: annotation_cleared_def)
  show ?thesis using p s f r by (simp del: get_loc_matrix.simps prepare_for_export.simps)
qed

section \<open>Alignment: properties\<close>

lemma recompose_translation:
  "to_translation (matmul (matmul (get_loc_matrix l) (to_4x4 r)) (get_sca_matrix s)) = l"
  by (cases l; cases r rule: to_4x4.cases; cases s) simp

lemma recompose_block:
  "to_3x3 (matmul (matmul (get_loc_matrix l) (to_4x4 r)) (get_sca_matrix s)) =
   to_3x3 (matmul (matmul (get_loc_matrix l') (to_4x4 r)) (get_sca_matrix s))"
  by (cases l; cases l'; cases r rule: to_4x4.cases; cases s) simp

lemma align_object_to_origin_all_axes:
  assumes "align_location self" "loc_x self" "loc_y self" "loc_z self"
  shows "align_object_to_origin decompose self obj =
     (case decompose (matrix_world obj) of
        (oloc, orot, osca) \<Rightarrow>
          obj\<lparr>matrix_world :=
                matmul (matmul (get_loc_matrix (0, 0, 0)) (to_4x4 (quat_to_matrix orot)))
                  (get_sca_matrix osca)\<rparr>)"
  using assms by (simp add: align_object_to_origin_def Let_def case_prod_beta)

lemma align_object_to_origin_result:
  fixes obj :: object
  assumes "align_location self" "loc_x self" "loc_y self" "loc_z self"
  shows "case decompose (matrix_world obj) of
          (oloc, orot, osca) \<Rightarrow>
            to_translation (matrix_world (align_object_to_origin decompose self obj)) = (0, 0, 0) \<and>
            to_3x3 (matrix_world (align_object_to_origin decompose self obj)) =
              to_3x3 (matmul (matmul (get_loc_matrix oloc) (get_rot_matrix orot))
                        (get_sca_matrix osca)) \<and>
            align_object_to_origin decompose self obj =
              obj\<lparr>matrix_world := matrix_world (align_object_to_origin decompose self obj)\<rparr>"
proof -
  obtain oloc orot osca where d: "decompose (matrix_world obj) = (oloc, orot, osca)"
    by (cases "decompose (matrix_world obj)")
  show ?thesis
    using recompose_block[of "(0, 0, 0)" "quat_to_matrix orot" osca oloc]
    by (simp add: align_object_to_origin_all_axes[OF assms] d recompose_translation
        get_rot_matrix_def del: matmul.simps get_loc_matrix.simps get_sca_matrix.simps)
qed

text \<open>
  Claim C2, as the code has it: for every object and every starting world matrix,
  aligning to ORIGIN with the location component and all three location axes enabled
  sets the world translation to the zero vector, while rotation and scale are passed
  through: the 3x3 block of the new matrix is that of the object's own decomposed
  location, rotation and scale put together again, and nothing but the world matrix of
  the object changes. The rotation is not set to the identity.
\<close>

theorem align_to_origin_keeps_rotation:
  assumes "align_location self" and "loc_x self" and "loc_y self" and "loc_z self"
  shows "list_all2
     (\<lambda>obj obj'.
        case decompose (matrix_world obj) of
          (oloc, orot, osca) \<Rightarrow>
            to_translation (matrix_world obj') = (0, 0, 0) \<and>
            to_3x3 (matrix_world obj') =
              to_3x3 (matmul (matmul (get_loc_matrix oloc) (get_rot_matrix orot))
                        (get_sca_matrix osca)) \<and>
            obj' = obj\<lparr>matrix_world := matrix_world obj'\<rparr>)
     sel (align_to_origin decompose self sel)"
  unfolding align_to_origin_def list_all2_map2
  by (rule list.rel_refl_strong) (rule align_object_to_origin_result[OF assms])


theorem align_to_origin_keeps_rotation_witness:
  "align_location (default_align\<lparr>mode := ORIGIN\<rparr>) \<and> loc_x (default_align\<lparr>mode := ORIGIN\<rparr>) \<and>
   loc_y (default_align\<lparr>mode := ORIGIN\<rparr>) \<and> loc_z (default_align\<lparr>mode := ORIGIN\<rparr>) \<and>
   map (\<lambda>obj. (to_translation (matrix_world obj), to_3x3 (matrix_world obj)))
     (align_to_origin decompose_half_turn_z (default_align\<lparr>mode := ORIGIN\<rparr>) [turned_cube])
   = [((0, 0, 0), ((- 1, 0, 0), (0, - 1, 0), (0, 0, 1)))]"
proof -
  have h: "align_location (default_align\<lparr>mode := ORIGIN\<rparr>)" "loc_x (default_align\<lparr>mode := ORIGIN\<rparr>)"
    "loc_y (default_align\<lparr>mode := ORIGIN\<rparr>)" "loc_z (default_align\<lparr>mode := ORIGIN\<rparr>)"
    by (simp_all add: default_align_def)
  show ?thesis
    using h align_to_origin_keeps_rotation[OF h, of decompose_half_turn_z "[turned_cube]"]
    by (simp add: align_to_origin_def decompose_half_turn_z_def turned_cube_def half_turn_z_def
        example_object_def get_rot_matrix_def)
qed

text \<open>
  An object that is turned by half a turn about Z is aligned to the origin with all
  axes enabled: the translation becomes zero, and the new matrix still has the half turn
  as its rotation, the quaternion \<open>(0, 0, 0, 1)\<close>, not the identity \<open>(1, 0, 0, 0)\<close>.
\<close>

theorem align_to_origin_rotation_not_identity:
  "map (\<lambda>obj. (matrix_world obj, decompose_half_turn_z (matrix_world obj)))
     (align_to_origin decompose_half_turn_z (default_align\<lparr>mode := ORIGIN\<rparr>) [turned_cube])
   = [(((- 1, 0, 0, 0), (0, - 1, 0, 0), (0, 0, 1, 0), (0, 0, 0, 1)),
       ((0, 0, 0), (0, 0, 0, 1), (1, 1, 1)))]"
  by (simp add: align_to_origin_def align_object_to_origin_def default_align_def
      decompose_half_turn_z_def turned_cube_def half_turn_z_def example_object_def Let_def)

text \<open>
  Claim C5, as the code has it: when the armature has the bone, every target object's
  world matrix is set to the armature's world matrix times the bone's matrix, times the
  rotation by -90 degrees about X and a roll about Z when Z-to-Y alignment is enabled,
  and times a roll about Y alone when it is disabled; the roll angle is the configured
  amount when roll is enabled and zero otherwise. When parenting is enabled each object
  is parented to the bone, otherwise its parent is kept.
\<close>

theorem align_to_active_bone_result:
  assumes "align_to_active_bone self armature bonename sel = Inr sel'"
  shows "\<exists>bone_matrix. pose_bones armature bonename = Some bone_matrix \<and>
     list_all2
       (\<lambda>obj obj'.
          matrix_world obj' =
            (if align_z_to_y self
             then matmul (matmul (matmul (matrix_world armature) bone_matrix)
                            (Matrix_Rotation (radians (- 90)) X))
                    (Matrix_Rotation (radians (if roll self then roll_amount self else 0)) Z)
             else matmul (matmul (matrix_world armature) bone_matrix)
                    (Matrix_Rotation (radians (if roll self then roll_amount self else 0)) Y)) \<and>
          (if parent_to_bone self
           then parent obj' = Some (name armature) \<and> parent_type obj' = ''BONE'' \<and>
                parent_bone obj' = bonename
           else parent obj' = parent obj \<and> parent_type obj' = parent_type obj \<and>
                parent_bone obj' = parent_bone obj))
       sel sel'"
proof (cases "pose_bones armature bonename")
  case None
  with assms show ?thesis by (simp add: align_to_active_bone_def)
next
  case (Some bone_matrix)
  with assms have "sel' = map (\<lambda>obj.
                 let obj1 = (if parent_to_bone self
                             then obj\<lparr>parent := Some (name armature), parent_type := ''BONE'',
                                     parent_bone := bonename\<rparr>
                             else obj)
                 in if align_z_to_y self
                    then obj1\<lparr>matrix_world :=
                           matmul (matmul (matmul (matrix_world armature) bone_matrix)
                                     (Matrix_Rotation (radians (- 90)) X))
                             (Matrix_Rotation
                                (radians (if roll self then roll_amount self else 0)) Z)\<rparr>
                    else obj1\<lparr>matrix_world :=
                           matmul (matmul (matrix_world armature) bone_matrix)
                             (Matrix_Rotation
                                (radians (if roll self then roll_amount self else 0)) Y)\<rparr>)
               sel"
    by (simp add: align_to_active_bone_def)
  then have "list_all2
       (\<lambda>obj obj'.
          matrix_world obj' =
            (if align_z_to_y self
             then matmul (matmul (matmul (matrix_world armature) bone_matrix)
                            (Matrix_Rotation (radians (- 90)) X))
                    (Matrix_Rotation (radians (if roll self then roll_amount self else 0)) Z)
             else matmul (matmul (matrix_world armature) bone_matrix)
                    (Matrix_Rotation (radians (if roll self then roll_amount self else 0)) Y)) \<and>
          (if parent_to_bone self
           then parent obj' = Some (name armature) \<and> parent_type obj' = ''BONE'' \<and>
                parent_bone obj' = bonename
           else parent obj' = parent obj \<and> parent_type obj' = parent_type obj \<and>
                parent_bone obj' = parent_bone obj))
       sel sel'"
    by (simp add: list_all2_map2 list.rel_refl Let_def del: matmul.simps Matrix_Rotation.simps)
  with Some show ?thesis by blast
qed

lemma example_bone_aligned:
  "align_to_active_bone (default_align\<lparr>roll := True\<rparr>) example_armature ''Bone'' [turned_cube] =
   Inr [turned_cube\<lparr>parent := Some ''Armature'', parent_type := ''BONE'', parent_bone := ''Bone'',
          matrix_world := ((0, - 1, 0, 0), (0, 0, 1, 0), (- 1, 0, 0, 0), (0, 0, 0, 1))\<rparr>]"
  by (simp add: align_to_active_bone_def default_align_def example_armature_def example_object_def
      Matrix_Identity_def radians_def turned_cube_def)

theorem align_to_active_bone_result_witness:
  "map (\<lambda>obj. (matrix_world obj, parent obj, parent_type obj, parent_bone obj))
     [turned_cube\<lparr>parent := Some ''Armature'', parent_type := ''BONE'', parent_bone := ''Bone'',
          matrix_world := ((0, - 1, 0, 0), (0, 0, 1, 0), (- 1, 0, 0, 0), (0, 0, 0, 1))\<rparr>]
   = [(matmul (matmul (matmul Matrix_Identity Matrix_Identity) (Matrix_Rotation (radians (- 90)) X))
         (Matrix_Rotation (radians 90) Z), Some ''Armature'', ''BONE'', ''Bone'')]"
  using align_to_active_bone_result[OF example_bone_aligned]
  by (simp add: default_align_def example_armature_def example_object_def
      Matrix_Identity_def radians_def turned_cube_def)

text \<open>
  With Z-to-Y alignment disabled and a roll of 180 degrees, armature and bone at the
  identity, the object is turned about Y; a roll about Z would give the second matrix.
\<close>

theorem roll_without_axis_correction_is_about_y:
  "(case align_to_active_bone (default_align\<lparr>align_z_to_y := False, roll := True, roll_amount := 180\<rparr>)
          example_armature ''Bone'' [turned_cube] of
      Inr sel' \<Rightarrow> map matrix_world sel'
    | Inl e \<Rightarrow> []) = [((- 1, 0, 0, 0), (0, 1, 0, 0), (0, 0, - 1, 0), (0, 0, 0, 1))] \<and>
   matmul (matmul Matrix_Identity Matrix_Identity) (Matrix_Rotation (radians 180) Z)
     = ((- 1, 0, 0, 0), (0, - 1, 0, 0), (0, 0, 1, 0), (0, 0, 0, 1))"
  by (simp add: align_to_active_bone_def default_align_def example_armature_def example_object_def
      Matrix_Identity_def radians_def turned_cube_def)

lemma vec_z_translation_z_sub:
  "vec_z (mat_vec3 (translation_z_sub mx d) co) = vec_z (mat_vec3 mx co) - d"
  by (cases mx rule: transpose4.cases; cases co) (simp add: algebra_simps)

lemma world_zs_translation_z_sub:
  "world_zs (translation_z_sub mx d) vs = map (\<lambda>z. z - d) (world_zs mx vs)"
  by (simp add: world_zs_def vec_z_translation_z_sub)

lemma fold_min_shift:
  fixes d :: real
  shows "fold min (map (\<lambda>z. z - d) zs) (z0 - d) = fold min zs z0 - d"
proof (induction zs arbitrary: z0)
  case Nil
  show ?case by simp
next
  case (Cons z zs)
  have "min (z - d) (z0 - d) = min z z0 - d" by (simp add: min_def)
  then show ?case using Cons.IH[of "min z z0"] by simp
qed

lemma py_min_shift:
  "py_min zs = Inr m \<Longrightarrow> py_min (map (\<lambda>z. z - d) zs) = Inr (m - d)"
  by (cases zs) (auto simp add: fold_min_shift)

lemma to_3x3_translation_z_sub: "to_3x3 (translation_z_sub mx d) = to_3x3 mx"
  by (cases mx rule: to_3x3.cases) simp

lemma drop_object_result:
  assumes "drop_object local_location bd obj = Inr obj'"
  shows "obj' = obj\<lparr>matrix_world := matrix_world obj', location := location obj'\<rparr> \<and>
      to_3x3 (matrix_world obj') = to_3x3 (matrix_world obj) \<and>
      (case type obj of
         MESH \<Rightarrow> (\<exists>minz. py_min (world_zs (matrix_world obj) (vertices bd (data obj))) = Inr minz \<and>
                  matrix_world obj' = translation_z_sub (matrix_world obj) minz \<and>
                  py_min (world_zs (matrix_world obj') (vertices bd (data obj))) = Inr 0) \<and>
                 location obj' = local_location obj (matrix_world obj')
       | EMPTY \<Rightarrow> matrix_world obj' = translation_z_sub (matrix_world obj) (vec_z (location obj)) \<and>
                  location obj' = local_location obj (matrix_world obj')
       | OTHER \<Rightarrow> obj' = obj)"
proof (cases "type obj")
  case MESH
  from assms MESH obtain minz where
    m: "py_min (world_zs (matrix_world obj) (vertices bd (data obj))) = Inr minz" and
    o: "obj' = obj\<lparr>matrix_world := translation_z_sub (matrix_world obj) minz,
           location := local_location obj (translation_z_sub (matrix_world obj) minz)\<rparr>"
    by (auto simp add: drop_object_def Let_def split: sum.splits)
  have "py_min (world_zs (translation_z_sub (matrix_world obj) minz) (vertices bd (data obj))) = Inr 0"
    using py_min_shift[OF m, of minz] by (simp add: world_zs_translation_z_sub)
  then show ?thesis using MESH m o by (simp add: to_3x3_translation_z_sub)
next
  case EMPTY
  with assms show ?thesis
    by (auto simp add: drop_object_def Let_def to_3x3_translation_z_sub)
next
  case OTHER
  with assms show ?thesis by (auto simp add: drop_object_def Let_def)
qed

lemma drop_object_fails:
  "(drop_object local_location bd obj = Inl e) =
     (e = ValueError \<and> type obj = MESH \<and> vertices bd (data obj) = [])"
  by (cases "vertices bd (data obj)")
    (auto simp add: drop_object_def Let_def world_zs_def split: sum.splits)

lemma drop_to_floor_returns:
  "\<forall>obj\<in>set selection. type obj = MESH \<longrightarrow> vertices bd (data obj) \<noteq> [] \<Longrightarrow>
   \<exists>selection'. drop_to_floor local_location bd selection = Inr selection'"
proof (induction selection)
  case Nil
  show ?case by simp
next
  case (Cons obj selection)
  have "\<not> (type obj = MESH \<and> vertices bd (data obj) = [])" using Cons.prems by simp
  then obtain obj' where d: "drop_object local_location bd obj = Inr obj'"
    using drop_object_fails[of local_location bd obj] by (cases "drop_object local_location bd obj") auto
  from Cons.IH Cons.prems obtain rest where
    "drop_to_floor local_location bd selection = Inr rest" by auto
  with d show ?case by simp
qed

lemma drop_to_floor_objects:
  assumes "drop_to_floor local_location bd selection = Inr selection'"
  shows "list_all2
     (\<lambda>obj obj'.
        obj' = obj\<lparr>matrix_world := matrix_world obj', location := location obj'\<rparr> \<and>
        to_3x3 (matrix_world obj') = to_3x3 (matrix_world obj) \<and>
        (case type obj of
           MESH \<Rightarrow> (\<exists>minz. py_min (world_zs (matrix_world obj) (vertices bd (data obj))) = Inr minz \<and>
                    matrix_world obj' = translation_z_sub (matrix_world obj) minz \<and>
                    py_min (world_zs (matrix_world obj') (vertices bd (data obj))) = Inr 0) \<and>
                   location obj' = local_location obj (matrix_world obj')
         | EMPTY \<Rightarrow> matrix_world obj' = translation_z_sub (matrix_world obj) (vec_z (location obj)) \<and>
                    location obj' = local_location obj (matrix_world obj')
         | OTHER \<Rightarrow> obj' = obj))
     selection selection'"
  using assms
proof (induction selection arbitrary: selection')
  case Nil
  then show ?case by simp
next
  case (Cons obj selection)
  from Cons.prems obtain obj' rest where
    d: "drop_object local_location bd obj = Inr obj'" and
    r: "drop_to_floor local_location bd selection = Inr rest" and
    s: "selection' = obj' # rest"
    by (auto split: sum.splits)
  show ?case using drop_object_result[OF d] Cons.IH[OF r] s by simp
qed

text \<open>
  Claim C8: on a selection in which every MESH object has a vertex, FLOOR alignment
  returns, and in its result each MESH object has had the minimum world Z of its vertices
  subtracted from the Z translation of its world matrix, so that the minimum world Z of
  its vertices is zero afterwards; each EMPTY object has had its own local Z location
  subtracted instead; objects of other types are unchanged. Only the Z entry of the
  translation changes in the matrix, whose 3x3 block is kept. Of the other fields of the
  object only the location changes, to what the host derives from the new matrix.
\<close>

theorem drop_to_floor_result:
  assumes "\<forall>obj\<in>set selection. type obj = MESH \<longrightarrow> vertices bd (data obj) \<noteq> []"
  shows "\<exists>selection'. drop_to_floor local_location bd selection = Inr selection' \<and>
     list_all2
     (\<lambda>obj obj'.
        obj' = obj\<lparr>matrix_world := matrix_world obj', location := location obj'\<rparr> \<and>
        to_3x3 (matrix_world obj') = to_3x3 (matrix_world obj) \<and>
        (case type obj of
           MESH \<Rightarrow> (\<exists>minz. py_min (world_zs (matrix_world obj) (vertices bd (data obj))) = Inr minz \<and>
                    matrix_world obj' = translation_z_sub (matrix_world obj) minz \<and>
                    py_min (world_zs (matrix_world obj') (vertices bd (data obj))) = Inr 0) \<and>
                   location obj' = local_location obj (matrix_world obj')
         | EMPTY \<Rightarrow> matrix_world obj' = translation_z_sub (matrix_world obj) (vec_z (location obj)) \<and>
                    location obj' = local_location obj (matrix_world obj')
         | OTHER \<Rightarrow> obj' = obj))
     selection selection'"
proof -
  from drop_to_floor_returns[OF assms] obtain selection' where
    r: "drop_to_floor local_location bd selection = Inr selection'" by blast
  from drop_to_floor_objects[OF r] r show ?thesis by blast
qed

lemma floor_mesh_dropped:
  "drop_to_floor unparented_location floor_bdata [floor_mesh] =
     Inr [floor_mesh\<lparr>matrix_world := ((1, 0, 0, 0), (0, 1, 0, 0), (0, 0, 1, 2), (0, 0, 0, 1)),
            location := (0, 0, 2)\<rparr>]"
  by (simp add: drop_object_def floor_bdata_def floor_mesh_def example_object_def
      Matrix_Identity_def world_zs_def unparented_location_def Let_def)

text \<open>
  The example of the spec: a mesh with vertices at local Z -2, 0 and 3 under the identity
  matrix is moved up by 2, and the minimum world Z of its vertices is 0 afterwards.
\<close>

theorem drop_to_floor_result_witness:
  "world_zs (matrix_world floor_mesh) (vertices floor_bdata (data floor_mesh)) = [- 2, 0, 3] \<and>
   drop_to_floor unparented_location floor_bdata [floor_mesh] =
     Inr [floor_mesh\<lparr>matrix_world := ((1, 0, 0, 0), (0, 1, 0, 0), (0, 0, 1, 2), (0, 0, 0, 1)),
            location := (0, 0, 2)\<rparr>] \<and>
   py_min (world_zs ((1, 0, 0, 0), (0, 1, 0, 0), (0, 0, 1, 2), (0, 0, 0, 1))
            (vertices floor_bdata (data floor_mesh))) = Inr 0"
proof -
  have h: "\<forall>obj\<in>set [floor_mesh]. type obj = MESH \<longrightarrow> vertices floor_bdata (data obj) \<noteq> []"
    by (simp add: floor_bdata_def floor_mesh_def example_object_def)
  from drop_to_floor_result[OF h, of unparented_location] obtain selection' where
    r: "drop_to_floor unparented_location floor_bdata [floor_mesh] = Inr selection'" and
    l: "list_all2
     (\<lambda>obj obj'.
        obj' = obj\<lparr>matrix_world := matrix_world obj', location := location obj'\<rparr> \<and>
        to_3x3 (matrix_world obj') = to_3x3 (matrix_world obj) \<and>
        (case type obj of
           MESH \<Rightarrow> (\<exists>minz. py_min (world_zs (matrix_world obj) (vertices floor_bdata (data obj))) = Inr minz \<and>
                    matrix_world obj' = translation_z_sub (matrix_world obj) minz \<and>
                    py_min (world_zs (matrix_world obj') (vertices floor_bdata (data obj))) = Inr 0) \<and>
                   location obj' = unparented_location obj (matrix_world obj')
         | EMPTY \<Rightarrow> matrix_world obj' = translation_z_sub (matrix_world obj) (vec_z (location obj)) \<and>
                    location obj' = unparented_location obj (matrix_world obj')
         | OTHER \<Rightarrow> obj' = obj))
     [floor_mesh] selection'"
    by blast
  have s: "selection' =
     [floor_mesh\<lparr>matrix_world := ((1, 0, 0, 0), (0, 1, 0, 0), (0, 0, 1, 2), (0, 0, 0, 1)),
            location := (0, 0, 2)\<rparr>]"
    using r floor_mesh_dropped by simp
  have t: "type floor_mesh = MESH" by (simp add: floor_mesh_def example_object_def)
  from l have "py_min (world_zs ((1, 0, 0, 0), (0, 1, 0, 0), (0, 0, 1, 2), (0, 0, 0, 1))
            (vertices floor_bdata (data floor_mesh))) = Inr 0"
    unfolding s by (auto simp add: t)
  moreover have "world_zs (matrix_world floor_mesh) (vertices floor_bdata (data floor_mesh))
      = [- 2, 0, 3]"
    by (simp add: floor_bdata_def floor_mesh_def example_object_def Matrix_Identity_def
        world_zs_def)
  ultimately show ?thesis using r s by simp
qed

text \<open>
  Claim C10: FLOOR alignment raises \<open>ValueError\<close>, the error of the minimum of an
  empty sequence, exactly when some MESH object of the selection has no vertex; on every
  other selection it returns a result.
\<close>

theorem drop_to_floor_fails_on_vertexless_mesh:
  "(if \<exists>obj\<in>set selection. type obj = MESH \<and> vertices bd (data obj) = []
    then drop_to_floor local_location bd selection = Inl ValueError
    else \<exists>selection'. drop_to_floor local_location bd selection = Inr selection')"
proof (induction selection)
  case Nil
  show ?case by simp
next
  case (Cons obj selection)
  show ?case
  proof (cases "drop_object local_location bd obj")
    case (Inl e)
    then show ?thesis using drop_object_fails[of local_location bd obj e] by auto
  next
    case (Inr obj')
    have ok: "\<not> (type obj = MESH \<and> vertices bd (data obj) = [])"
      using Inr drop_object_fails[of local_location bd obj ValueError] by auto
    show ?thesis
    proof (cases "\<exists>obj\<in>set selection. type obj = MESH \<and> vertices bd (data obj) = []")
      case True
      with Cons.IH have "drop_to_floor local_location bd selection = Inl ValueError" by simp
      then show ?thesis using True Inr by simp
    next
      case False
      with Cons.IH obtain rest where "drop_to_floor local_location bd selection = Inr rest" by auto
      then show ?thesis using False Inr ok by simp
    qed
  qed
qed

theorem drop_to_floor_fails_on_vertexless_mesh_witness:
  "drop_to_floor unparented_location floor_bdata [floor_mesh, vertexless_mesh] = Inl ValueError \<and>
   (\<exists>selection'. drop_to_floor unparented_location floor_bdata [floor_mesh] = Inr selection')"
  using drop_to_floor_fails_on_vertexless_mesh[of "[floor_mesh, vertexless_mesh]" floor_bdata
      unparented_location]
    drop_to_floor_fails_on_vertexless_mesh[of "[floor_mesh]" floor_bdata unparented_location]
  by (simp add: floor_bdata_def floor_mesh_def vertexless_mesh_def example_object_def)

section \<open>Cursor operators: properties\<close>

text \<open>
  \<^verbatim>\<open>CursorToOrigin.invoke\<close> checks the two keys first: with both held down it only
  shows the message and cancels.
\<close>

lemma CursorToOrigin_cancels_first:
  "alt ev \<Longrightarrow> ctrl ev \<Longrightarrow>
   CursorToOrigin_invoke ev ctx =
     (CANCELLED,
      ctx\<lparr>popups := popups ctx @
             [(''Invalid Modifier Keys'', ''Hold down ATL, CTRL or neither, not both!'')]\<rparr>)"
  by (simp add: CursorToOrigin_invoke_def popup_message_def)

text \<open>
  Claim C3 asks that with both ALT and CTRL held down a cursor operator reports the
  error and returns CANCELLED with no change of state before the check. In
  \<^verbatim>\<open>CursorToSelected.invoke\<close> the check comes after two other steps. With the cursor
  hidden, the operator cancels, but the cursor has been switched on; and with selected
  objects and no active object, the operator raises before it reaches the check.
\<close>

theorem CursorToSelected_changes_state_before_check:
  "CursorToSelected_invoke decompose editmesh snap_cursor_to_selected
     \<lparr>alt = True, ctrl = True\<rparr> hidden_cursor_context =
   Inr (CANCELLED,
        hidden_cursor_context
          \<lparr>show_cursor := True,
           popups := [(''Invalid Modifier Keys'', ''Hold down ATL, CTRL or neither, not both!'')]\<rparr>) \<and>
   CursorToSelected_invoke decompose editmesh snap_cursor_to_selected
     \<lparr>alt = True, ctrl = True\<rparr> (hidden_cursor_context\<lparr>active_object := None\<rparr>) =
   Inl ValueError"
  by (simp add: CursorToSelected_invoke_def hidden_cursor_context_def popup_message_def Let_def)

end
